theory Spec2Isabelle
  imports Complex_Main "HOL-Library.Log_Nat"
begin

section \<open>JavaScript values\<close>

text \<open>
  The two controllers (\<^verbatim>\<open>job.controller.js\<close>, \<^verbatim>\<open>order.controller.js\<close>) work on JSON
  request bodies and on rows returned by the ORM. A JavaScript number is an IEEE double:
  one of the three special values, or a finite double, given by the rational it denotes
  (negative zero is not told from zero). Reading a numeral and multiplying round the
  exact result to the nearest double. Strings are byte strings; only ASCII white space
  is recognised.
\<close>

datatype jsnum = NaN | NegInf | PosInf | Fin rat

subsection \<open>Rounding to a double\<close>

text \<open>For \<open>q > 0\<close>, the exponent \<open>k\<close> with \<open>2^k \<le> q < 2^(k+1)\<close>.\<close>

definition floorLog2 :: "rat \<Rightarrow> int" where
  "floorLog2 q =
     (let (a, b) = quotient_of q; k = bitlen a - bitlen b
      in if 2 powi k \<le> q then k else k - 1)"

text \<open>The nearest integer, the even one of two that are equally near.\<close>

definition roundHalfEven :: "rat \<Rightarrow> int" where
  "roundHalfEven x =
     (let f = \<lfloor>x\<rfloor>; r = x - of_int f
      in if r < 1 / 2 then f else if 1 / 2 < r then f + 1 else if even f then f else f + 1)"

text \<open>
  The double nearest to a rational: 53 significant bits, the last of them worth no less
  than \<open>2^-1074\<close>; a result of \<open>2^1024\<close> or more in magnitude is an infinity.
\<close>

definition roundToDouble :: "rat \<Rightarrow> jsnum" where
  "roundToDouble q =
     (if q = 0 then Fin 0
      else
        (let a = \<bar>q\<bar>;
             u = max (floorLog2 a - 52) (- 1074);
             r = of_int (roundHalfEven (a / 2 powi u)) * 2 powi u
         in if 2 ^ 1024 \<le> r then (if q < 0 then NegInf else PosInf)
            else Fin (if q < 0 then - r else r)))"

text \<open>\<^verbatim>\<open>a * b\<close> on finite numbers.\<close>

definition jsTimes :: "rat \<Rightarrow> rat \<Rightarrow> jsnum" where
  "jsTimes a b = roundToDouble (a * b)"

datatype jsval =
    JUndefined
  | JNull
  | JBool bool
  | JNum jsnum
  | JStr string
  | JArr "jsval list"
  | JObj "(string \<times> jsval) list"

text \<open>\<^verbatim>\<open>ToBoolean\<close>: what \<^verbatim>\<open>if (x)\<close>, \<^verbatim>\<open>!x\<close> and \<^verbatim>\<open>x || y\<close> test.\<close>

fun num_truthy :: "jsnum \<Rightarrow> bool" where
  "num_truthy NaN = False"
| "num_truthy (Fin q) = (q \<noteq> 0)"
| "num_truthy NegInf = True"
| "num_truthy PosInf = True"

fun truthy :: "jsval \<Rightarrow> bool" where
  "truthy JUndefined = False"
| "truthy JNull = False"
| "truthy (JBool b) = b"
| "truthy (JNum n) = num_truthy n"
| "truthy (JStr s) = (s \<noteq> [])"
| "truthy (JArr xs) = True"
| "truthy (JObj kvs) = True"

text \<open>A field that is a string when present: \<open>None\<close> is \<^verbatim>\<open>undefined\<close>.\<close>

fun str_truthy :: "string option \<Rightarrow> bool" where
  "str_truthy None = False"
| "str_truthy (Some s) = (s \<noteq> [])"

text \<open>\<^verbatim>\<open>`${x}`\<close> for such a field.\<close>

fun str_template :: "string option \<Rightarrow> string" where
  "str_template None = ''undefined''"
| "str_template (Some s) = s"

text \<open>\<^verbatim>\<open>x || d\<close> for such a field and a string default.\<close>

definition str_or :: "string option \<Rightarrow> string \<Rightarrow> string" where
  "str_or x d = (case x of None \<Rightarrow> d | Some s \<Rightarrow> if s = [] then d else s)"

subsection \<open>Numeric literals in strings\<close>

definition isWhiteSpace :: "char \<Rightarrow> bool" where
  "isWhiteSpace c = (c \<in> set [CHR 0x09, CHR 0x0A, CHR 0x0B, CHR 0x0C, CHR 0x0D, CHR 0x20])"

definition isDigit :: "char \<Rightarrow> bool" where
  "isDigit c = (48 \<le> (of_char c :: nat) \<and> (of_char c :: nat) \<le> 57)"

text \<open>The value of a character as a digit of the given radix, if it is one.\<close>

definition digitValue :: "nat \<Rightarrow> char \<Rightarrow> nat option" where
  "digitValue radix c =
     (let n = (of_char c :: nat);
          v = (if 48 \<le> n \<and> n \<le> 57 then Some (n - 48)
               else if 97 \<le> n \<and> n \<le> 122 then Some (n - 87)
               else if 65 \<le> n \<and> n \<le> 90 then Some (n - 55)
               else None)
      in case v of None \<Rightarrow> None | Some d \<Rightarrow> if d < radix then Some d else None)"

definition isRadixDigit :: "nat \<Rightarrow> char \<Rightarrow> bool" where
  "isRadixDigit radix c = (digitValue radix c \<noteq> None)"

definition digitsValue :: "nat \<Rightarrow> string \<Rightarrow> nat" where
  "digitsValue radix ds =
     foldl (\<lambda>a c. radix * a + (case digitValue radix c of None \<Rightarrow> 0 | Some d \<Rightarrow> d)) 0 ds"

text \<open>A leading sign: whether it is a minus, and the rest.\<close>

fun takeSign :: "string \<Rightarrow> bool \<times> string" where
  "takeSign [] = (False, [])"
| "takeSign (c # r) =
     (if c = CHR ''-'' then (True, r) else if c = CHR ''+'' then (False, r) else (False, c # r))"

text \<open>
  \<^verbatim>\<open>parseInt(string)\<close> with no radix argument: leading white space is skipped, a sign and
  a \<^verbatim>\<open>0x\<close> prefix are read, then the longest run of digits; \<open>None\<close> is \<^verbatim>\<open>NaN\<close>.
\<close>

definition parseInt :: "string \<Rightarrow> int option" where
  "parseInt str =
     (let (neg, s1) = takeSign (dropWhile isWhiteSpace str);
          hex = (take 2 s1 = ''0x'' \<or> take 2 s1 = ''0X'');
          radix = (if hex then 16 else 10);
          s2 = (if hex then drop 2 s1 else s1);
          z = takeWhile (isRadixDigit radix) s2
      in if z = [] then None
         else Some ((if neg then - 1 else 1) * int (digitsValue radix z)))"

text \<open>
  The longest prefix that is an unsigned decimal literal without exponent
  (\<^verbatim>\<open>12\<close>, \<^verbatim>\<open>12.\<close>, \<^verbatim>\<open>12.5\<close>, \<^verbatim>\<open>.5\<close>): integer digits, fraction digits and the rest.
\<close>

definition parseMantissa :: "string \<Rightarrow> ((string \<times> string) \<times> string) option" where
  "parseMantissa s =
     (let ip = takeWhile isDigit s; r1 = dropWhile isDigit s
      in case r1 of
           [] \<Rightarrow> if ip = [] then None else Some ((ip, []), [])
         | c # r2 \<Rightarrow>
             if c = CHR ''.'' then
               (let fp = takeWhile isDigit r2; r3 = dropWhile isDigit r2
                in if ip = [] \<and> fp = [] then None else Some ((ip, fp), r3))
             else if ip = [] then None else Some ((ip, []), r1))"

text \<open>An exponent part \<^verbatim>\<open>e[+-]digits\<close> at the front, if there is a complete one.\<close>

definition parseExponent :: "string \<Rightarrow> (int \<times> string) option" where
  "parseExponent s =
     (case s of
        [] \<Rightarrow> None
      | c # r \<Rightarrow>
          if c = CHR ''e'' \<or> c = CHR ''E'' then
            (let (neg, r1) = takeSign r; ds = takeWhile isDigit r1
             in if ds = [] then None
                else Some ((if neg then - 1 else 1) * int (digitsValue 10 ds),
                           dropWhile isDigit r1))
          else None)"

definition scale10 :: "rat \<Rightarrow> int \<Rightarrow> rat" where
  "scale10 q e = (if 0 \<le> e then q * 10 ^ nat e else q / 10 ^ nat (- e))"

text \<open>
  The longest prefix that is an unsigned decimal literal: its exact value and the rest.
\<close>

definition parseDecimal :: "string \<Rightarrow> (rat \<times> string) option" where
  "parseDecimal s =
     (case parseMantissa s of
        None \<Rightarrow> None
      | Some ((ip, fp), r) \<Rightarrow>
          (let m = of_nat (digitsValue 10 ip) + of_nat (digitsValue 10 fp) / 10 ^ length fp
           in case parseExponent r of
                None \<Rightarrow> Some (m, r)
              | Some (e, r') \<Rightarrow> Some (scale10 m e, r')))"

definition signed :: "bool \<Rightarrow> jsnum \<Rightarrow> jsnum" where
  "signed neg n =
     (if neg then (case n of NaN \<Rightarrow> NaN | NegInf \<Rightarrow> PosInf | PosInf \<Rightarrow> NegInf | Fin q \<Rightarrow> Fin (- q))
      else n)"

text \<open>
  \<^verbatim>\<open>parseFloat\<close> on a string: the longest numeric prefix, read as a double; \<^verbatim>\<open>NaN\<close>
  when there is none.
\<close>

definition parseFloatStr :: "string \<Rightarrow> jsnum" where
  "parseFloatStr str =
     (let (neg, s) = takeSign (dropWhile isWhiteSpace str)
      in if take 8 s = ''Infinity'' then signed neg PosInf
         else case parseDecimal s of
                None \<Rightarrow> NaN
              | Some (q, r) \<Rightarrow> signed neg (roundToDouble q))"

definition trim :: "string \<Rightarrow> string" where
  "trim s = rev (dropWhile isWhiteSpace (rev (dropWhile isWhiteSpace s)))"

text \<open>
  \<^verbatim>\<open>Number(string)\<close>: the whole trimmed string must be a numeric literal; the empty
  string is \<open>0\<close>.
\<close>

definition radixLiteral :: "nat \<Rightarrow> string \<Rightarrow> jsnum" where
  "radixLiteral radix ds =
     (if ds \<noteq> [] \<and> list_all (isRadixDigit radix) ds
      then roundToDouble (of_nat (digitsValue radix ds))
      else NaN)"

definition Number :: "string \<Rightarrow> jsnum" where
  "Number str =
     (let t = trim str
      in if t = [] then Fin 0
         else if take 2 t = ''0x'' \<or> take 2 t = ''0X'' then radixLiteral 16 (drop 2 t)
         else if take 2 t = ''0o'' \<or> take 2 t = ''0O'' then radixLiteral 8 (drop 2 t)
         else if take 2 t = ''0b'' \<or> take 2 t = ''0B'' then radixLiteral 2 (drop 2 t)
         else
           (let (neg, s) = takeSign t
            in if s = ''Infinity'' then signed neg PosInf
               else case parseDecimal s of
                      None \<Rightarrow> NaN
                    | Some (q, r) \<Rightarrow> if r = [] then signed neg (roundToDouble q) else NaN))"

text \<open>
  \<^verbatim>\<open>parseFloat(x)\<close> reads \<^verbatim>\<open>String(x)\<close>. A number prints to a literal that reads back
  as itself; an array prints its elements separated by commas, so only its first
  element can contribute; every other value prints to a word that is not a number.
\<close>

fun parseFloat :: "jsval \<Rightarrow> jsnum" where
  "parseFloat (JNum n) = n"
| "parseFloat (JStr s) = parseFloatStr s"
| "parseFloat (JArr (x # xs)) = parseFloat x"
| "parseFloat (JArr []) = NaN"
| "parseFloat JUndefined = NaN"
| "parseFloat JNull = NaN"
| "parseFloat (JBool b) = NaN"
| "parseFloat (JObj kvs) = NaN"

text \<open>
  \<^verbatim>\<open>ToNumber\<close>, as the comparison \<^verbatim>\<open>a < b\<close> applies it to an operand that is not a
  number. An array is first printed: the empty array to the empty string, a one-element
  array to what its element prints to (nothing for \<^verbatim>\<open>null\<close> and \<^verbatim>\<open>undefined\<close>).
\<close>

fun ToNumber :: "jsval \<Rightarrow> jsnum" where
  "ToNumber JUndefined = NaN"
| "ToNumber JNull = Fin 0"
| "ToNumber (JBool b) = Fin (if b then 1 else 0)"
| "ToNumber (JNum n) = n"
| "ToNumber (JStr s) = Number s"
| "ToNumber (JArr []) = Fin 0"
| "ToNumber (JArr [JUndefined]) = Fin 0"
| "ToNumber (JArr [JNull]) = Fin 0"
| "ToNumber (JArr [JBool b]) = NaN"
| "ToNumber (JArr [JNum n]) = n"
| "ToNumber (JArr [JStr s]) = Number s"
| "ToNumber (JArr [JArr ys]) = ToNumber (JArr ys)"
| "ToNumber (JArr [JObj kvs]) = NaN"
| "ToNumber (JArr (x # y # zs)) = NaN"
| "ToNumber (JObj kvs) = NaN"

text \<open>\<^verbatim>\<open>isNaN(n)\<close> and \<^verbatim>\<open>a < b\<close> on numbers; every comparison with \<^verbatim>\<open>NaN\<close> is false.\<close>

fun isNaN :: "jsnum \<Rightarrow> bool" where
  "isNaN NaN = True"
| "isNaN n = False"

fun num_less :: "jsnum \<Rightarrow> jsnum \<Rightarrow> bool" where
  "num_less NaN b = False"
| "num_less a NaN = False"
| "num_less PosInf b = False"
| "num_less a NegInf = False"
| "num_less NegInf b = True"
| "num_less a PosInf = True"
| "num_less (Fin p) (Fin q) = (p < q)"


text \<open>
  Reading a property of an object created by an object literal or by the JSON parser:
  an own property wins, then the properties every object inherits from
  \<^verbatim>\<open>Object.prototype\<close> (built-in functions, never numbers or arrays), then \<^verbatim>\<open>undefined\<close>.
\<close>

definition objectPrototypeKeys :: "string list" where
  "objectPrototypeKeys =
     [''constructor'', ''hasOwnProperty'', ''isPrototypeOf'', ''propertyIsEnumerable'',
      ''toLocaleString'', ''toString'', ''valueOf'', ''__proto__'', ''__defineGetter__'',
      ''__defineSetter__'', ''__lookupGetter__'', ''__lookupSetter__'']"

datatype 'a property = Own 'a | Inherited | Absent

definition getProperty :: "(string \<rightharpoonup> 'a) \<Rightarrow> string \<Rightarrow> 'a property" where
  "getProperty obj k =
     (case obj k of
        Some v \<Rightarrow> Own v
      | None \<Rightarrow> if k \<in> set objectPrototypeKeys then Inherited else Absent)"

subsection \<open>Printing and slicing strings\<close>

fun showNat :: "nat \<Rightarrow> string" where
  "showNat n =
     (if n < 10 then [char_of (48 + n)] else showNat (n div 10) @ [char_of (48 + n mod 10)])"

declare showNat.simps [simp del]

definition padStart :: "nat \<Rightarrow> char \<Rightarrow> string \<Rightarrow> string" where
  "padStart n c s = replicate (n - length s) c @ s"

definition substr :: "nat \<Rightarrow> nat \<Rightarrow> string \<Rightarrow> string" where
  "substr start len s = take len (drop start s)"

definition toUpperCase :: "string \<Rightarrow> string" where
  "toUpperCase s =
     map (\<lambda>c. if 97 \<le> (of_char c :: nat) \<and> (of_char c :: nat) \<le> 122
               then char_of ((of_char c :: nat) - 32) else c) s"

definition startsWith :: "string \<Rightarrow> string \<Rightarrow> bool" where
  "startsWith s p = (take (length p) s = p)"

section \<open>Requests, responses and the environment\<close>

text \<open>
  \<^verbatim>\<open>new ApiError(statusCode, message, errors)\<close> and
  \<^verbatim>\<open>new ApiResponse(statusCode, data, message)\<close>. A handler either forwards an error to
  \<^verbatim>\<open>next\<close> or sends a response; the model returns the one or the other, with the store
  as the writes left it.
\<close>

datatype api_error = ApiError nat string "string option"

datatype 'a api_response = ApiResponse nat 'a string

text \<open>\<^verbatim>\<open>req.user\<close>, as the authentication middleware leaves it (the decoded token).\<close>

record req_user =
  user_id :: "int option"
  user_role :: string

text \<open>
  \<^verbatim>\<open>!req.user || !req.user.id\<close> fails for a missing user and for a missing or zero id;
  otherwise the handler goes on with the id.
\<close>

definition authenticated :: "req_user option \<Rightarrow> int option" where
  "authenticated u =
     (case u of
        None \<Rightarrow> None
      | Some usr \<Rightarrow>
          (case user_id usr of None \<Rightarrow> None | Some i \<Rightarrow> if i = 0 then None else Some i))"

text \<open>
  What the handlers read from outside the request: the clock (\<^verbatim>\<open>Date.now()\<close> in
  milliseconds and the local calendar fields of \<^verbatim>\<open>new Date()\<close>), the random source
  (\<^verbatim>\<open>Math.random().toString(36)\<close>), the date parser behind \<^verbatim>\<open>new Date(string)\<close>
  (\<open>None\<close> is an invalid date) and the text of the error the ORM client throws when
  it cannot do what it is asked (\<^verbatim>\<open>NaN\<close> as a row id, a price that is not a finite
  number, a row to update that is not there).
\<close>

record env =
  now :: int
  fullYear :: nat
  month :: nat
  date :: nat
  random36 :: string
  dateParse :: "string \<Rightarrow> int option"
  clientError :: string

section \<open>Orders\<close>

record status_history =
  status :: string
  changedBy :: "int option"

record gig =
  id' :: int
  freelancerId :: int
  status :: string
  pricing :: "string \<rightharpoonup> rat"
  deliveryTime :: int

record freelancer_profile =
  id' :: int
  userId :: int

record order =
  id' :: int
  gigId :: int
  clientId :: int
  freelancerId :: int
  package :: string
  totalPrice :: rat
  requirements :: jsval
  isUrgent :: jsval
  priorityFee :: "rat option"
  customDetails :: jsval
  orderNumber :: string
  deliveryDeadline :: int
  status :: string
  statusHistory :: "status_history list"
  cancellationReason :: "string option"
  cancellationDate :: "int option"
  completedAt :: "int option"
  deliveryExtensions :: int
  extensionReason :: "string option"

text \<open>
  The tables the order handlers query. The store accepts every write of a value of the
  column's type; rows get consecutive ids.
\<close>

record order_store =
  gigs :: "int \<rightharpoonup> gig"
  profiles :: "int \<rightharpoonup> freelancer_profile"
  orders :: "int \<rightharpoonup> order"
  nextOrderId :: int

text \<open>
  A row id in a JSON body: a string, or an integer below \<open>10^21\<close> in magnitude, which
  prints in plain digits that \<^verbatim>\<open>parseInt\<close> reads back (\<open>None\<close>: not sent).
\<close>

datatype jsid = IdNum int | IdStr string

fun id_truthy :: "jsid option \<Rightarrow> bool" where
  "id_truthy None = False"
| "id_truthy (Some (IdNum n)) = (n \<noteq> 0)"
| "id_truthy (Some (IdStr s)) = (s \<noteq> [])"

fun parseIntId :: "jsid option \<Rightarrow> int option" where
  "parseIntId None = None"
| "parseIntId (Some (IdNum n)) = Some n"
| "parseIntId (Some (IdStr s)) = parseInt s"


text \<open>
  A request to the order routes: \<^verbatim>\<open>req.user\<close>, \<^verbatim>\<open>req.params.orderId\<close> and the fields
  of \<^verbatim>\<open>req.body\<close> that the handlers destructure. Each handler reads its own fields.
  The text fields are strings when sent; \<^verbatim>\<open>requirements\<close>, \<^verbatim>\<open>isUrgent\<close> and
  \<^verbatim>\<open>customDetails\<close> are any JSON value.
\<close>

record request =
  user :: "req_user option"

record order_request = request +
  params_orderId :: string
  body_gigId :: "jsid option"
  body_selectedPackage :: "string option"
  body_requirements :: jsval
  body_isUrgent :: jsval
  body_customDetails :: jsval
  body_status :: "string option"
  body_extensionReason :: "string option"
  body_cancellationReason :: "string option"

subsection \<open>createOrder\<close>

text \<open>
  \<^verbatim>\<open>`ORD-${year}${month, two digits}${day, two digits}-${four characters}`\<close>, the four
  characters cut out of the base-36 print of a random number.
\<close>

definition generateOrderNumber :: "env \<Rightarrow> string" where
  "generateOrderNumber e =
     ''ORD-'' @ showNat (fullYear e) @ padStart 2 (CHR ''0'') (showNat (month e + 1))
       @ padStart 2 (CHR ''0'') (showNat (date e)) @ ''-''
       @ toUpperCase (substr 2 4 (random36 e))"

text \<open>
  \<^verbatim>\<open>isUrgent ? pricing * 1.5 : pricing\<close> and \<^verbatim>\<open>isUrgent ? pricing * 0.5 : null\<close>, the
  total price and the priority fee. A product that overflows is not a finite number,
  which the store does not take (\<open>None\<close>).
\<close>

definition orderPrices :: "jsval \<Rightarrow> rat \<Rightarrow> (rat \<times> rat option) option" where
  "orderPrices urgent price =
     (if truthy urgent then
        (case jsTimes price 1.5 of
           Fin charged \<Rightarrow>
             (case jsTimes price 0.5 of
                Fin fee \<Rightarrow> Some (charged, Some fee)
              | NaN \<Rightarrow> None | NegInf \<Rightarrow> None | PosInf \<Rightarrow> None)
         | NaN \<Rightarrow> None | NegInf \<Rightarrow> None | PosInf \<Rightarrow> None)
      else Some (price, None))"

text \<open>
  The row \<^verbatim>\<open>prisma.order.create\<close> is given. The status of a new order and its counters
  are the schema's defaults, which the source does not set: \<^verbatim>\<open>PENDING\<close>, as the
  history entry created with it says, and no extension.
\<close>

definition newOrder ::
  "env \<Rightarrow> int \<Rightarrow> int \<Rightarrow> gig \<Rightarrow> rat \<Rightarrow> rat option \<Rightarrow> order_request \<Rightarrow> order" where
  "newOrder e oid cid g charged fee req =
     \<lparr> order.id' = oid,
       gigId = gig.id' g,
       clientId = cid,
       order.freelancerId = gig.freelancerId g,
       package = str_template (body_selectedPackage req),
       totalPrice = charged,
       requirements = body_requirements req,
       isUrgent = (if truthy (body_isUrgent req) then body_isUrgent req else JBool False),
       priorityFee = fee,
       customDetails = body_customDetails req,
       orderNumber = generateOrderNumber e,
       deliveryDeadline = now e + deliveryTime g * 24 * 60 * 60 * 1000,
       order.status = ''PENDING'',
       statusHistory = [\<lparr> status_history.status = ''PENDING'', changedBy = None \<rparr>],
       cancellationReason = None,
       cancellationDate = None,
       completedAt = None,
       deliveryExtensions = 0,
       extensionReason = None \<rparr>"

definition createOrder ::
  "env \<Rightarrow> order_store \<Rightarrow> order_request \<Rightarrow> (api_error + order api_response) \<times> order_store" where
  "createOrder e s req =
     (case authenticated (user req) of
        None \<Rightarrow> (Inl (ApiError 401 ''Unauthorized: User not authenticated'' None), s)
      | Some cid \<Rightarrow>
          if \<not> id_truthy (body_gigId req) \<or> \<not> str_truthy (body_selectedPackage req)
          then (Inl (ApiError 400 ''Gig ID and package are required'' None), s)
          else
            (case parseIntId (body_gigId req) of
               None \<Rightarrow> (Inl (ApiError 500 ''Failed to create order'' (Some (clientError e))), s)
             | Some gid \<Rightarrow>
                 (case gigs s gid of
                    None \<Rightarrow> (Inl (ApiError 404 ''Gig not found or not active'' None), s)
                  | Some g \<Rightarrow>
                      if gig.status g \<noteq> ''ACTIVE''
                      then (Inl (ApiError 404 ''Gig not found or not active'' None), s)
                      else
                        (case getProperty (pricing g) (str_template (body_selectedPackage req)) of
                           Absent \<Rightarrow> (Inl (ApiError 400 ''Invalid package selected'' None), s)
                         | Inherited \<Rightarrow>
                             (Inl (ApiError 500 ''Failed to create order'' (Some (clientError e))), s)
                         | Own price \<Rightarrow>
                             if price = 0
                             then (Inl (ApiError 400 ''Invalid package selected'' None), s)
                             else
                               (case orderPrices (body_isUrgent req) price of
                                  None \<Rightarrow>
                                    (Inl (ApiError 500 ''Failed to create order''
                                            (Some (clientError e))), s)
                                | Some (charged, fee) \<Rightarrow>
                                    (let ord = newOrder e (nextOrderId s) cid g charged fee req
                                     in (Inr (ApiResponse 201 ord
                                                ''Order created successfully''),
                                         s\<lparr> orders := (orders s)(nextOrderId s \<mapsto> ord),
                                            nextOrderId := nextOrderId s + 1 \<rparr>)))))))"

subsection \<open>updateOrderStatus\<close>

definition validTransitions :: "string \<rightharpoonup> string list" where
  "validTransitions =
     [''PENDING'' \<mapsto> [''ACCEPTED'', ''CANCELLED''],
      ''ACCEPTED'' \<mapsto> [''IN_PROGRESS'', ''CANCELLED''],
      ''IN_PROGRESS'' \<mapsto> [''DELIVERED'', ''CANCELLED''],
      ''DELIVERED'' \<mapsto> [''COMPLETED'', ''DISPUTED''],
      ''DISPUTED'' \<mapsto> [''COMPLETED'', ''CANCELLED'']]"

text \<open>
  \<^verbatim>\<open>validTransitions[from]?.includes(to)\<close>: a list is searched, \<^verbatim>\<open>undefined\<close> stays
  \<^verbatim>\<open>undefined\<close> (falsy), and an inherited built-in has no \<^verbatim>\<open>includes\<close> to call, which
  throws (\<open>None\<close>).
\<close>

definition includesTransition :: "string \<Rightarrow> string \<Rightarrow> bool option" where
  "includesTransition from to =
     (case getProperty validTransitions from of
        Own l \<Rightarrow> Some (to \<in> set l)
      | Absent \<Rightarrow> Some False
      | Inherited \<Rightarrow> None)"

definition invalidTransition :: "string \<Rightarrow> string option \<Rightarrow> api_error" where
  "invalidTransition from to =
     ApiError 400 (''Invalid status transition from '' @ from @ '' to '' @ str_template to) None"

text \<open>\<^verbatim>\<open>updateData\<close> together with the nested history entry, applied to the row.\<close>

definition applyStatusUpdate :: "env \<Rightarrow> order_request \<Rightarrow> int \<Rightarrow> order \<Rightarrow> order" where
  "applyStatusUpdate e req uid ord =
     (let st = str_template (body_status req);
          ord1 =
            (if st = ''CANCELLED'' then
               ord\<lparr> cancellationReason :=
                      Some (str_or (body_cancellationReason req) ''Not specified''),
                    cancellationDate := Some (now e) \<rparr>
             else if st = ''COMPLETED'' then ord\<lparr> completedAt := Some (now e) \<rparr>
             else if str_truthy (body_extensionReason req) then
               ord\<lparr> deliveryExtensions := deliveryExtensions ord + 1,
                    extensionReason := body_extensionReason req,
                    deliveryDeadline := deliveryDeadline ord + 7 * 24 * 60 * 60 * 1000 \<rparr>
             else ord)
      in ord1\<lparr> order.status := st,
               statusHistory :=
                 statusHistory ord1 @ [\<lparr> status_history.status = st, changedBy = Some uid \<rparr>] \<rparr>)"

definition updateOrderStatus ::
  "env \<Rightarrow> order_store \<Rightarrow> order_request \<Rightarrow> (api_error + order api_response) \<times> order_store" where
  "updateOrderStatus e s req =
     (case authenticated (user req) of
        None \<Rightarrow> (Inl (ApiError 401 ''Unauthorized: User not authenticated'' None), s)
      | Some uid \<Rightarrow>
          (case parseInt (params_orderId req) of
             None \<Rightarrow> (Inl (ApiError 500 ''Failed to update order status'' (Some (clientError e))), s)
           | Some oid \<Rightarrow>
               (case orders s oid of
                  None \<Rightarrow> (Inl (ApiError 404 ''Order not found'' None), s)
                | Some ord \<Rightarrow>
                    (case profiles s (order.freelancerId ord) of
                       None \<Rightarrow>
                         (Inl (ApiError 500 ''Failed to update order status''
                                 (Some ''Cannot read properties of null (reading 'userId')'')), s)
                     | Some fp \<Rightarrow>
                         if clientId ord \<noteq> uid \<and> userId fp \<noteq> uid
                         then (Inl (ApiError 403 ''Forbidden: You can only update your own orders''
                                      None), s)
                         else if \<not> str_truthy (body_status req)
                         then (Inl (invalidTransition (order.status ord) (body_status req)), s)
                         else if order.status ord = ''COMPLETED''
                         then
                           (let ord' = applyStatusUpdate e req uid ord
                            in (Inr (ApiResponse 200 ord' ''Order status updated successfully''),
                                s\<lparr> orders := (orders s)(oid \<mapsto> ord') \<rparr>))
                         else
                           (case includesTransition (order.status ord)
                                   (str_template (body_status req)) of
                              None \<Rightarrow>
                                (Inl (ApiError 500 ''Failed to update order status''
                                   (Some ''validTransitions[order.status]?.includes is not a function'')),
                                 s)
                            | Some False \<Rightarrow>
                                (Inl (invalidTransition (order.status ord) (body_status req)), s)
                            | Some True \<Rightarrow>
                                (let ord' = applyStatusUpdate e req uid ord
                                 in (Inr (ApiResponse 200 ord'
                                            ''Order status updated successfully''),
                                     s\<lparr> orders := (orders s)(oid \<mapsto> ord') \<rparr>)))))))"

subsection \<open>cancelOrder\<close>

text \<open>The part of \<^verbatim>\<open>cancelOrder\<close> after the ownership check.\<close>

definition cancelOwnOrder ::
  "env \<Rightarrow> order_store \<Rightarrow> order_request \<Rightarrow> int \<Rightarrow> int \<Rightarrow> order \<Rightarrow>
     (api_error + order api_response) \<times> order_store" where
  "cancelOwnOrder e s req uid oid ord =
     (if order.status ord \<notin> set [''PENDING'', ''ACCEPTED'', ''IN_PROGRESS'']
      then (Inl (ApiError 400 ''Order cannot be cancelled in its current status'' None), s)
      else
        (let ord' =
               ord\<lparr> order.status := ''CANCELLED'',
                    cancellationReason :=
                      Some (str_or (body_cancellationReason req) ''Not specified''),
                    cancellationDate := Some (now e),
                    statusHistory :=
                      statusHistory ord
                        @ [\<lparr> status_history.status = ''CANCELLED'', changedBy = Some uid \<rparr>] \<rparr>
         in (Inr (ApiResponse 200 ord' ''Order cancelled successfully''),
             s\<lparr> orders := (orders s)(oid \<mapsto> ord') \<rparr>)))"

text \<open>
  \<^verbatim>\<open>order.clientId !== userId && order.freelancer.userId !== userId\<close>: the freelancer's
  profile is read only when the actor is not the client.
\<close>

definition cancelOrder ::
  "env \<Rightarrow> order_store \<Rightarrow> order_request \<Rightarrow> (api_error + order api_response) \<times> order_store" where
  "cancelOrder e s req =
     (case authenticated (user req) of
        None \<Rightarrow> (Inl (ApiError 401 ''Unauthorized: User not authenticated'' None), s)
      | Some uid \<Rightarrow>
          (case parseInt (params_orderId req) of
             None \<Rightarrow> (Inl (ApiError 500 ''Failed to cancel order'' (Some (clientError e))), s)
           | Some oid \<Rightarrow>
               (case orders s oid of
                  None \<Rightarrow> (Inl (ApiError 404 ''Order not found'' None), s)
                | Some ord \<Rightarrow>
                    if clientId ord = uid then cancelOwnOrder e s req uid oid ord
                    else
                      (case profiles s (order.freelancerId ord) of
                         None \<Rightarrow>
                           (Inl (ApiError 500 ''Failed to cancel order''
                                   (Some ''Cannot read properties of null (reading 'userId')'')), s)
                       | Some fp \<Rightarrow>
                           if userId fp \<noteq> uid
                           then (Inl (ApiError 403 ''Forbidden: You can only cancel your own orders''
                                        None), s)
                           else cancelOwnOrder e s req uid oid ord))))"


subsection \<open>The status workflow as the specification lists it\<close>

definition orderStatuses :: "string list" where
  "orderStatuses =
     [''PENDING'', ''ACCEPTED'', ''IN_PROGRESS'', ''DELIVERED'', ''DISPUTED'', ''COMPLETED'',
      ''CANCELLED'']"

definition transitionTable :: "(string \<times> string) list" where
  "transitionTable =
     [(''PENDING'', ''ACCEPTED''), (''PENDING'', ''CANCELLED''),
      (''ACCEPTED'', ''IN_PROGRESS''), (''ACCEPTED'', ''CANCELLED''),
      (''IN_PROGRESS'', ''DELIVERED''), (''IN_PROGRESS'', ''CANCELLED''),
      (''DELIVERED'', ''COMPLETED''), (''DELIVERED'', ''DISPUTED''),
      (''DISPUTED'', ''COMPLETED''), (''DISPUTED'', ''CANCELLED'')]"

subsection \<open>Sample data for the order routes\<close>

definition sampleEnv :: env where
  "sampleEnv =
     \<lparr> now = 1000000, fullYear = 2026, month = 10, date = 2, random36 = ''0.4fzyo82mvyr'',
       dateParse = (\<lambda>s. None), clientError = ''Invalid argument'' \<rparr>"

definition sampleGig :: gig where
  "sampleGig =
     \<lparr> gig.id' = 7, gig.freelancerId = 3, gig.status = ''ACTIVE'',
       pricing = [''basic'' \<mapsto> 100, ''free'' \<mapsto> 0], deliveryTime = 3 \<rparr>"

definition sampleProfile :: freelancer_profile where
  "sampleProfile = \<lparr> freelancer_profile.id' = 3, userId = 20 \<rparr>"

text \<open>An order of client 10 with freelancer profile 3 (user 20), in the given status.\<close>

definition sampleOrder :: "string \<Rightarrow> order" where
  "sampleOrder st =
     \<lparr> order.id' = 1, gigId = 7, clientId = 10, order.freelancerId = 3, package = ''basic'',
       totalPrice = 100, requirements = JNull, isUrgent = JBool False, priorityFee = None,
       customDetails = JNull, orderNumber = ''ORD-20261101-AB12'', deliveryDeadline = 5000,
       order.status = st,
       statusHistory = [\<lparr> status_history.status = ''PENDING'', changedBy = None \<rparr>],
       cancellationReason = None, cancellationDate = None, completedAt = None,
       deliveryExtensions = 0, extensionReason = None \<rparr>"

definition sampleStore :: "string \<Rightarrow> order_store" where
  "sampleStore st =
     \<lparr> gigs = [7 \<mapsto> sampleGig], profiles = [3 \<mapsto> sampleProfile],
       orders = [1 \<mapsto> sampleOrder st], nextOrderId = 2 \<rparr>"

text \<open>
  A gig with one package at 19.99: the price is the double nearest to 19.99, as the
  JSON parser reads the numeral.
\<close>

definition centsPrice :: rat where
  "centsPrice = 5626684784446013 / 2 ^ 48"

definition centsGig :: gig where
  "centsGig =
     \<lparr> gig.id' = 8, gig.freelancerId = 3, gig.status = ''ACTIVE'',
       pricing = [''pro'' \<mapsto> centsPrice], deliveryTime = 2 \<rparr>"

text \<open>A request of user 10 for order 1 with an empty body.\<close>

definition sampleRequest :: order_request where
  "sampleRequest =
     \<lparr> user = Some \<lparr> user_id = Some 10, user_role = ''CLIENT'' \<rparr>, params_orderId = ''1'',
       body_gigId = None, body_selectedPackage = None, body_requirements = JUndefined,
       body_isUrgent = JUndefined, body_customDetails = JUndefined, body_status = None,
       body_extensionReason = None, body_cancellationReason = None \<rparr>"

section \<open>Jobs\<close>

text \<open>
  A job row. The handlers pass most columns through unread, so they hold any JSON
  value; the deadline is a date (milliseconds), the e-mail address a string when present.
\<close>

record job =
  id' :: int
  title :: jsval
  description :: jsval
  category :: jsval
  budgetMin :: jsval
  budgetMax :: jsval
  deadline :: int
  jobDifficulty :: jsval
  projectLength :: jsval
  keyResponsibilities :: jsval
  requiredSkills :: jsval
  tools :: jsval
  scope :: jsval
  postedById :: int
  name :: jsval
  email :: "string option"
  company :: jsval
  note' :: jsval
  videoFileUrl :: jsval

record application =
  id' :: int
  aboutFreelancer :: jsval
  freelancerId :: int
  jobId :: int

record user_row =
  id' :: int
  freelancerProfile :: "freelancer_profile option"
  appliedJobsId :: "int list"

record job_store =
  jobs :: "int \<rightharpoonup> job"
  nextJobId :: int
  users :: "int \<rightharpoonup> user_row"
  applications :: "application list"
  nextApplicationId :: int

text \<open>An uploaded file, as the upload middleware hands it over in \<^verbatim>\<open>req.files\<close>.\<close>

record upload_file =
  mimetype :: string
  fileName :: string

text \<open>
  A request to the job routes: \<^verbatim>\<open>req.user\<close>, \<^verbatim>\<open>req.params.jobId\<close>,
  \<^verbatim>\<open>req.files.videoFile\<close> and the fields of \<^verbatim>\<open>req.body\<close>. The deadline and the e-mail
  address are strings when sent; every other field is any JSON value, \<^verbatim>\<open>undefined\<close>
  when not sent.
\<close>

record job_request = request +
  params_jobId :: string
  files_videoFile :: "upload_file option"
  body_aboutFreelancer :: jsval
  body_title :: jsval
  body_description :: jsval
  body_category :: jsval
  body_budgetMin :: jsval
  body_budgetMax :: jsval
  body_deadline :: "string option"
  body_jobDifficulty :: jsval
  body_projectLength :: jsval
  body_keyResponsibilities :: jsval
  body_requiredSkills :: jsval
  body_tools :: jsval
  body_scope :: jsval
  body_name :: jsval
  body_email :: "string option"
  body_company :: jsval
  body_note :: jsval
  body_videoFileUrl :: jsval

text \<open>
  A number used as a row id: the ORM client takes an integer and throws on anything
  else.
\<close>

fun asRowId :: "jsnum \<Rightarrow> int option" where
  "asRowId (Fin q) = (if q = of_int \<lfloor>q\<rfloor> then Some \<lfloor>q\<rfloor> else None)"
| "asRowId NaN = None"
| "asRowId NegInf = None"
| "asRowId PosInf = None"

text \<open>\<^verbatim>\<open>new Date(x)\<close> for a field that is a string when sent; \<open>None\<close> is an invalid date.\<close>

fun newDate :: "env \<Rightarrow> string option \<Rightarrow> int option" where
  "newDate e None = None"
| "newDate e (Some s) = dateParse e s"

subsection \<open>applyJob\<close>

definition requestRole :: "job_request \<Rightarrow> string" where
  "requestRole req = (case user req of None \<Rightarrow> [] | Some u \<Rightarrow> user_role u)"

definition applyJob ::
  "env \<Rightarrow> job_store \<Rightarrow> job_request \<Rightarrow> (api_error + application api_response) \<times> job_store" where
  "applyJob e s req =
     (case authenticated (user req) of
        None \<Rightarrow> (Inl (ApiError 401 ''Unauthorized: User not authenticated'' None), s)
      | Some fid \<Rightarrow>
          if requestRole req \<noteq> ''FREELANCER''
          then (Inl (ApiError 403 ''Only freelancers can apply for jobs'' None), s)
          else
            (case asRowId (Number (params_jobId req)) of
               None \<Rightarrow>
                 (Inl (ApiError 500 (''Failed to apply for job: '' @ clientError e) None), s)
             | Some jid \<Rightarrow>
                 (case jobs s jid of
                    None \<Rightarrow> (Inl (ApiError 404 ''Job not found'' None), s)
                  | Some j \<Rightarrow>
                      (case users s fid of
                         None \<Rightarrow> (Inl (ApiError 404 ''Freelancer profile not found'' None), s)
                       | Some u \<Rightarrow>
                           if freelancerProfile u = None
                           then (Inl (ApiError 404 ''Freelancer profile not found'' None), s)
                           else
                             (case find (\<lambda>a. application.freelancerId a = fid
                                               \<and> application.jobId a = jid)
                                     (applications s) of
                                Some existingApplication \<Rightarrow>
                                  (Inl (ApiError 400 ''You have already applied to this job''
                                          None), s)
                              | None \<Rightarrow>
                                  (let appliedJob =
                                         \<lparr> application.id' = nextApplicationId s,
                                           aboutFreelancer = body_aboutFreelancer req,
                                           application.freelancerId = fid,
                                           application.jobId = jid \<rparr>
                                   in (Inr (ApiResponse 200 appliedJob
                                              ''Applied to job successfully''),
                                       s\<lparr> applications := applications s @ [appliedJob],
                                          nextApplicationId := nextApplicationId s + 1,
                                          users :=
                                            (users s)
                                              (fid \<mapsto> u\<lparr> appliedJobsId :=
                                                            appliedJobsId u @ [jid] \<rparr>) \<rparr>)))))))"

text \<open>At most one application for every pair of a freelancer and a job.\<close>

definition oneApplicationPerPair :: "job_store \<Rightarrow> bool" where
  "oneApplicationPerPair s =
     distinct (map (\<lambda>a. (application.freelancerId a, application.jobId a)) (applications s))"

text \<open>
  The handler gives way at every \<^verbatim>\<open>await\<close>, and steps of other requests may run before
  it goes on. A request in flight is at one of these points: not begun; the job found;
  the freelancer found; no earlier application found; the application created; done,
  with its answer. Each step runs the code up to and including the next ORM call, which
  acts on the store as it is then.
\<close>

datatype apply_task =
    Started job_request
  | JobFound job_request int int
  | FreelancerFound job_request int int
  | NotYetApplied job_request int int
  | Created job_request int int application
  | Finished "api_error + application api_response"

fun applyJobStep :: "env \<Rightarrow> apply_task \<Rightarrow> job_store \<Rightarrow> apply_task \<times> job_store" where
  "applyJobStep e (Started req) s =
     (case authenticated (user req) of
        None \<Rightarrow> (Finished (Inl (ApiError 401 ''Unauthorized: User not authenticated'' None)), s)
      | Some fid \<Rightarrow>
          if requestRole req \<noteq> ''FREELANCER''
          then (Finished (Inl (ApiError 403 ''Only freelancers can apply for jobs'' None)), s)
          else
            (case asRowId (Number (params_jobId req)) of
               None \<Rightarrow>
                 (Finished (Inl (ApiError 500 (''Failed to apply for job: '' @ clientError e)
                                   None)), s)
             | Some jid \<Rightarrow>
                 (case jobs s jid of
                    None \<Rightarrow> (Finished (Inl (ApiError 404 ''Job not found'' None)), s)
                  | Some j \<Rightarrow> (JobFound req fid jid, s))))"
| "applyJobStep e (JobFound req fid jid) s =
     (case users s fid of
        None \<Rightarrow> (Finished (Inl (ApiError 404 ''Freelancer profile not found'' None)), s)
      | Some u \<Rightarrow>
          if freelancerProfile u = None
          then (Finished (Inl (ApiError 404 ''Freelancer profile not found'' None)), s)
          else (FreelancerFound req fid jid, s))"
| "applyJobStep e (FreelancerFound req fid jid) s =
     (case find (\<lambda>a. application.freelancerId a = fid \<and> application.jobId a = jid)
             (applications s) of
        Some existingApplication \<Rightarrow>
          (Finished (Inl (ApiError 400 ''You have already applied to this job'' None)), s)
      | None \<Rightarrow> (NotYetApplied req fid jid, s))"
| "applyJobStep e (NotYetApplied req fid jid) s =
     (let appliedJob =
            \<lparr> application.id' = nextApplicationId s,
              aboutFreelancer = body_aboutFreelancer req,
              application.freelancerId = fid,
              application.jobId = jid \<rparr>
      in (Created req fid jid appliedJob,
          s\<lparr> applications := applications s @ [appliedJob],
             nextApplicationId := nextApplicationId s + 1 \<rparr>))"
| "applyJobStep e (Created req fid jid appliedJob) s =
     (case users s fid of
        None \<Rightarrow>
          (Finished (Inl (ApiError 500 (''Failed to apply for job: '' @ clientError e) None)),
           s)
      | Some u \<Rightarrow>
          (Finished (Inr (ApiResponse 200 appliedJob ''Applied to job successfully'')),
           s\<lparr> users := (users s)(fid \<mapsto> u\<lparr> appliedJobsId := appliedJobsId u @ [jid] \<rparr>) \<rparr>))"
| "applyJobStep e (Finished answer) s = (Finished answer, s)"

text \<open>
  Requests in flight, run in the order of a schedule: each entry names the request that
  takes the next step.
\<close>

fun runSchedule ::
  "env \<Rightarrow> nat list \<Rightarrow> apply_task list \<Rightarrow> job_store \<Rightarrow> apply_task list \<times> job_store" where
  "runSchedule e [] ts s = (ts, s)"
| "runSchedule e (i # rest) ts s =
     (if i < length ts
      then (case applyJobStep e (ts ! i) s of (t', s') \<Rightarrow> runSchedule e rest (ts[i := t']) s')
      else runSchedule e rest ts s)"

subsection \<open>createJob\<close>

text \<open>
  The module imports \<^verbatim>\<open>ApiError\<close>, \<^verbatim>\<open>ApiResponse\<close> and \<^verbatim>\<open>prisma\<close> and defines its eight
  handlers. The name \<^verbatim>\<open>uploadFileToS3\<close> that \<^verbatim>\<open>createJob\<close> calls for a video attachment
  is bound nowhere, so evaluating the call throws a \<^verbatim>\<open>ReferenceError\<close>, which the
  handler's \<^verbatim>\<open>catch\<close> turns into the 500 error.
\<close>

definition createJob ::
  "env \<Rightarrow> job_store \<Rightarrow> job_request \<Rightarrow> (api_error + job api_response) \<times> job_store" where
  "createJob e s req =
     (case authenticated (user req) of
        None \<Rightarrow> (Inl (ApiError 401 ''Unauthorized: User not authenticated'' None), s)
      | Some pid \<Rightarrow>
          (case files_videoFile req of
             Some file \<Rightarrow>
               if \<not> startsWith (mimetype file) ''video/''
               then (Inl (ApiError 400 ''Invalid file type. Only videos are allowed'' None), s)
               else (Inl (ApiError 500 ''Failed to post job''
                            (Some ''uploadFileToS3 is not defined'')), s)
           | None \<Rightarrow>
               (case newDate e (body_deadline req) of
                  None \<Rightarrow> (Inl (ApiError 500 ''Failed to post job'' (Some (clientError e))), s)
                | Some d \<Rightarrow>
                    (let j =
                           \<lparr> job.id' = nextJobId s,
                             title = body_title req,
                             description = body_description req,
                             category = body_category req,
                             budgetMin = body_budgetMin req,
                             budgetMax = body_budgetMax req,
                             deadline = d,
                             jobDifficulty = body_jobDifficulty req,
                             projectLength = body_projectLength req,
                             keyResponsibilities = body_keyResponsibilities req,
                             requiredSkills = body_requiredSkills req,
                             tools = (if truthy (body_tools req) then body_tools req
                                      else JArr []),
                             scope = body_scope req,
                             postedById = pid,
                             name = body_name req,
                             email = body_email req,
                             company = body_company req,
                             note' = body_note req,
                             videoFileUrl = body_videoFileUrl req \<rparr>
                     in (Inr (ApiResponse 201 j ''Job posted successfully''),
                         s\<lparr> jobs := (jobs s)(nextJobId s \<mapsto> j),
                            nextJobId := nextJobId s + 1 \<rparr>)))))"

subsection \<open>updateJob and deleteJob\<close>

text \<open>The message of the 404 error; its apostrophe is U+2019, three bytes in UTF-8.\<close>

definition notFoundOrNotOwned :: string where
  "notFoundOrNotOwned =
     ''Job not found or you don'' @ [CHR 0xE2, CHR 0x80, CHR 0x99] @ ''t own it''"

text \<open>\<^verbatim>\<open>updateData\<close>: the columns to write, each absent until it is assigned.\<close>

record job_update =
  upd_title :: "jsval option"
  upd_description :: "jsval option"
  upd_category :: "jsval option"
  upd_budgetMin :: "jsnum option"
  upd_budgetMax :: "jsnum option"
  upd_deadline :: "int option"
  upd_jobDifficulty :: "jsval option"
  upd_projectLength :: "jsval option"
  upd_keyResponsibilities :: "jsval option"
  upd_requiredSkills :: "jsval option"
  upd_tools :: "jsval option"
  upd_scope :: "jsval option"
  upd_name :: "jsval option"
  upd_email :: "string option"
  upd_company :: "jsval option"
  upd_note :: "jsval option"
  upd_videoFileUrl :: "jsval option"

definition emptyUpdate :: job_update where
  "emptyUpdate =
     \<lparr> upd_title = None, upd_description = None, upd_category = None, upd_budgetMin = None,
       upd_budgetMax = None, upd_deadline = None, upd_jobDifficulty = None,
       upd_projectLength = None, upd_keyResponsibilities = None, upd_requiredSkills = None,
       upd_tools = None, upd_scope = None, upd_name = None, upd_email = None,
       upd_company = None, upd_note = None, upd_videoFileUrl = None \<rparr>"

text \<open>\<^verbatim>\<open>Array.isArray(x) ? x : [x]\<close>.\<close>

fun asArray :: "jsval \<Rightarrow> jsval" where
  "asArray (JArr xs) = JArr xs"
| "asArray v = JArr [v]"

text \<open>\<^verbatim>\<open>/^[^\s@]+@[^\s@]+\.[^\s@]+$/.test(s)\<close>.\<close>

definition emailChar :: "char \<Rightarrow> bool" where
  "emailChar c = (\<not> isWhiteSpace c \<and> c \<noteq> CHR ''@'')"

definition emailRegexTest :: "string \<Rightarrow> bool" where
  "emailRegexTest s =
     (takeWhile emailChar s \<noteq> []
      \<and> (case dropWhile emailChar s of
            [] \<Rightarrow> False
          | c # d \<Rightarrow> c = CHR ''@'' \<and> list_all emailChar d \<and> CHR ''.'' \<in> set (butlast (tl d))))"

text \<open>The steps of \<^verbatim>\<open>updateJob\<close> that can refuse the request, in the order of the source.\<close>

definition budgetMinStep :: "job_request \<Rightarrow> job_update \<Rightarrow> api_error + job_update" where
  "budgetMinStep req u =
     (if body_budgetMin req \<noteq> JUndefined then
        (let minBudget = parseFloat (body_budgetMin req)
         in if isNaN minBudget \<or> num_less minBudget (Fin 0)
            then Inl (ApiError 400 ''Invalid budgetMin value'' None)
            else Inr (u\<lparr> upd_budgetMin := Some minBudget \<rparr>))
      else Inr u)"

text \<open>\<^verbatim>\<open>updateData.budgetMin || job.budgetMin\<close>, as a number to compare with.\<close>

definition budgetFloor :: "job \<Rightarrow> job_update \<Rightarrow> jsnum" where
  "budgetFloor j u =
     (case upd_budgetMin u of
        None \<Rightarrow> ToNumber (budgetMin j)
      | Some m \<Rightarrow> if num_truthy m then m else ToNumber (budgetMin j))"

definition budgetMaxStep :: "job \<Rightarrow> job_request \<Rightarrow> job_update \<Rightarrow> api_error + job_update" where
  "budgetMaxStep j req u =
     (if body_budgetMax req \<noteq> JUndefined then
        (let maxBudget = parseFloat (body_budgetMax req)
         in if isNaN maxBudget \<or> num_less maxBudget (budgetFloor j u)
            then Inl (ApiError 400 ''Invalid budgetMax value; must be greater than budgetMin''
                        None)
            else Inr (u\<lparr> upd_budgetMax := Some maxBudget \<rparr>))
      else Inr u)"

definition deadlineStep :: "env \<Rightarrow> job_request \<Rightarrow> job_update \<Rightarrow> api_error + job_update" where
  "deadlineStep e req u =
     (if str_truthy (body_deadline req) then
        (case newDate e (body_deadline req) of
           None \<Rightarrow> Inl (ApiError 400 ''Invalid deadline. Please provide a future date'' None)
         | Some parsedDeadline \<Rightarrow>
             if parsedDeadline < now e
             then Inl (ApiError 400 ''Invalid deadline. Please provide a future date'' None)
             else Inr (u\<lparr> upd_deadline := Some parsedDeadline \<rparr>))
      else Inr u)"

definition emailStep :: "job_request \<Rightarrow> job_update \<Rightarrow> api_error + job_update" where
  "emailStep req u =
     (if str_truthy (body_email req) then
        (if \<not> emailRegexTest (str_template (body_email req))
         then Inl (ApiError 400 ''Invalid email format'' None)
         else Inr (u\<lparr> upd_email := body_email req \<rparr>))
      else Inr u)"

text \<open>The assignments between the steps, which refuse nothing.\<close>

definition headFields :: "job_request \<Rightarrow> job_update \<Rightarrow> job_update" where
  "headFields req u =
     (let u1 = (if truthy (body_title req) then u\<lparr> upd_title := Some (body_title req) \<rparr> else u);
          u2 = (if truthy (body_description req)
                then u1\<lparr> upd_description := Some (body_description req) \<rparr> else u1)
      in if truthy (body_category req)
         then u2\<lparr> upd_category := Some (asArray (body_category req)) \<rparr> else u2)"

definition middleFields :: "job_request \<Rightarrow> job_update \<Rightarrow> job_update" where
  "middleFields req u =
     (let u1 = (if truthy (body_jobDifficulty req)
                then u\<lparr> upd_jobDifficulty := Some (body_jobDifficulty req) \<rparr> else u);
          u2 = (if truthy (body_projectLength req)
                then u1\<lparr> upd_projectLength := Some (body_projectLength req) \<rparr> else u1);
          u3 = (if truthy (body_keyResponsibilities req)
                then u2\<lparr> upd_keyResponsibilities := Some (asArray (body_keyResponsibilities req)) \<rparr>
                else u2);
          u4 = (if truthy (body_requiredSkills req)
                then u3\<lparr> upd_requiredSkills := Some (asArray (body_requiredSkills req)) \<rparr>
                else u3);
          u5 = (if truthy (body_tools req)
                then u4\<lparr> upd_tools := Some (asArray (body_tools req)) \<rparr> else u4);
          u6 = (if truthy (body_scope req) then u5\<lparr> upd_scope := Some (body_scope req) \<rparr> else u5)
      in if truthy (body_name req) then u6\<lparr> upd_name := Some (body_name req) \<rparr> else u6)"

definition tailFields :: "job_request \<Rightarrow> job_update \<Rightarrow> job_update" where
  "tailFields req u =
     (let u1 = (if body_company req \<noteq> JUndefined
                then u\<lparr> upd_company := Some (body_company req) \<rparr> else u);
          u2 = (if body_note req \<noteq> JUndefined then u1\<lparr> upd_note := Some (body_note req) \<rparr> else u1)
      in if body_videoFileUrl req \<noteq> JUndefined
         then u2\<lparr> upd_videoFileUrl := Some (body_videoFileUrl req) \<rparr> else u2)"

definition buildUpdateData :: "env \<Rightarrow> job \<Rightarrow> job_request \<Rightarrow> api_error + job_update" where
  "buildUpdateData e j req =
     (case budgetMinStep req (headFields req emptyUpdate) of
        Inl err \<Rightarrow> Inl err
      | Inr u1 \<Rightarrow>
          (case budgetMaxStep j req u1 of
             Inl err \<Rightarrow> Inl err
           | Inr u2 \<Rightarrow>
               (case deadlineStep e req u2 of
                  Inl err \<Rightarrow> Inl err
                | Inr u3 \<Rightarrow>
                    (case emailStep req (middleFields req u3) of
                       Inl err \<Rightarrow> Inl err
                     | Inr u4 \<Rightarrow> Inr (tailFields req u4)))))"

text \<open>\<^verbatim>\<open>prisma.job.update\<close>: the assigned columns are written, the others kept.\<close>

definition writeUpdate :: "job_update \<Rightarrow> job \<Rightarrow> job" where
  "writeUpdate u j =
     j\<lparr> title := (case upd_title u of None \<Rightarrow> title j | Some v \<Rightarrow> v),
        description := (case upd_description u of None \<Rightarrow> description j | Some v \<Rightarrow> v),
        category := (case upd_category u of None \<Rightarrow> category j | Some v \<Rightarrow> v),
        budgetMin := (case upd_budgetMin u of None \<Rightarrow> budgetMin j | Some n \<Rightarrow> JNum n),
        budgetMax := (case upd_budgetMax u of None \<Rightarrow> budgetMax j | Some n \<Rightarrow> JNum n),
        deadline := (case upd_deadline u of None \<Rightarrow> deadline j | Some d \<Rightarrow> d),
        jobDifficulty := (case upd_jobDifficulty u of None \<Rightarrow> jobDifficulty j | Some v \<Rightarrow> v),
        projectLength := (case upd_projectLength u of None \<Rightarrow> projectLength j | Some v \<Rightarrow> v),
        keyResponsibilities :=
          (case upd_keyResponsibilities u of None \<Rightarrow> keyResponsibilities j | Some v \<Rightarrow> v),
        requiredSkills := (case upd_requiredSkills u of None \<Rightarrow> requiredSkills j | Some v \<Rightarrow> v),
        tools := (case upd_tools u of None \<Rightarrow> tools j | Some v \<Rightarrow> v),
        scope := (case upd_scope u of None \<Rightarrow> scope j | Some v \<Rightarrow> v),
        name := (case upd_name u of None \<Rightarrow> name j | Some v \<Rightarrow> v),
        email := (case upd_email u of None \<Rightarrow> email j | Some v \<Rightarrow> Some v),
        company := (case upd_company u of None \<Rightarrow> company j | Some v \<Rightarrow> v),
        note' := (case upd_note u of None \<Rightarrow> note' j | Some v \<Rightarrow> v),
        videoFileUrl := (case upd_videoFileUrl u of None \<Rightarrow> videoFileUrl j | Some v \<Rightarrow> v) \<rparr>"

definition updateJob ::
  "env \<Rightarrow> job_store \<Rightarrow> job_request \<Rightarrow> (api_error + job api_response) \<times> job_store" where
  "updateJob e s req =
     (case authenticated (user req) of
        None \<Rightarrow> (Inl (ApiError 401 ''Unauthorized: User not authenticated'' None), s)
      | Some uid \<Rightarrow>
          (case parseInt (params_jobId req) of
             None \<Rightarrow> (Inl (ApiError 500 ''Failed to update job'' (Some (clientError e))), s)
           | Some jid \<Rightarrow>
               (case jobs s jid of
                  None \<Rightarrow> (Inl (ApiError 404 notFoundOrNotOwned None), s)
                | Some j \<Rightarrow>
                    if postedById j \<noteq> uid
                    then (Inl (ApiError 404 notFoundOrNotOwned None), s)
                    else
                      (case buildUpdateData e j req of
                         Inl err \<Rightarrow> (Inl err, s)
                       | Inr updateData \<Rightarrow>
                           (let updatedJob = writeUpdate updateData j
                            in (Inr (ApiResponse 200 updatedJob ''Job updated successfully''),
                                s\<lparr> jobs := (jobs s)(jid \<mapsto> updatedJob) \<rparr>))))))"

definition deleteJob ::
  "env \<Rightarrow> job_store \<Rightarrow> job_request \<Rightarrow> (api_error + jsval api_response) \<times> job_store" where
  "deleteJob e s req =
     (case authenticated (user req) of
        None \<Rightarrow> (Inl (ApiError 401 ''Unauthorized: User not authenticated'' None), s)
      | Some uid \<Rightarrow>
          (case parseInt (params_jobId req) of
             None \<Rightarrow> (Inl (ApiError 500 ''Failed to delete job'' (Some (clientError e))), s)
           | Some jid \<Rightarrow>
               (case jobs s jid of
                  None \<Rightarrow> (Inl (ApiError 404 notFoundOrNotOwned None), s)
                | Some j \<Rightarrow>
                    if postedById j \<noteq> uid
                    then (Inl (ApiError 404 notFoundOrNotOwned None), s)
                    else (Inr (ApiResponse 200 JNull ''Job deleted successfully''),
                          s\<lparr> jobs := (jobs s)(jid := None) \<rparr>))))"

subsection \<open>Sample data for the job routes\<close>

text \<open>A job posted by user 10, with a budget from 100 to 500.\<close>

definition sampleJob :: job where
  "sampleJob =
     \<lparr> job.id' = 5, title = JStr ''Wedding film edit'', description = JStr ''Two cameras'',
       category = JArr [JStr ''Editing''], budgetMin = JNum (Fin 100), budgetMax = JNum (Fin 500),
       deadline = 2000000, jobDifficulty = JStr ''MEDIUM'', projectLength = JStr ''SHORT'',
       keyResponsibilities = JArr [], requiredSkills = JArr [], tools = JArr [],
       scope = JStr ''One film'', postedById = 10, name = JStr ''Asha'',
       email = Some ''asha@example.com'', company = JNull, note' = JNull, videoFileUrl = JNull \<rparr>"

text \<open>User 20 is a freelancer with a profile; nobody has applied to anything yet.\<close>

definition sampleJobStore :: job_store where
  "sampleJobStore =
     \<lparr> jobs = [5 \<mapsto> sampleJob], nextJobId = 6,
       users = [20 \<mapsto> \<lparr> user_row.id' = 20, freelancerProfile = Some sampleProfile,
                        appliedJobsId = [] \<rparr>],
       applications = [], nextApplicationId = 1 \<rparr>"

text \<open>A request of user 10, a client, for job 5, with no file and an empty body.\<close>

definition sampleJobRequest :: job_request where
  "sampleJobRequest =
     \<lparr> user = Some \<lparr> user_id = Some 10, user_role = ''CLIENT'' \<rparr>, params_jobId = ''5'',
       files_videoFile = None, body_aboutFreelancer = JUndefined, body_title = JUndefined,
       body_description = JUndefined, body_category = JUndefined, body_budgetMin = JUndefined,
       body_budgetMax = JUndefined, body_deadline = None, body_jobDifficulty = JUndefined,
       body_projectLength = JUndefined, body_keyResponsibilities = JUndefined,
       body_requiredSkills = JUndefined, body_tools = JUndefined, body_scope = JUndefined,
       body_name = JUndefined, body_email = None, body_company = JUndefined,
       body_note = JUndefined, body_videoFileUrl = JUndefined \<rparr>"

section \<open>Verified properties\<close>

subsection \<open>Rounding\<close>

text \<open>A rational that is a double rounds to itself.\<close>

lemma floorLog2_le:
  assumes "0 < q"
  shows "2 powi floorLog2 q \<le> q"
proof -
  obtain a b where ab: "quotient_of q = (a, b)" by (cases "quotient_of q")
  have b: "0 < b" using ab quotient_of_denom_pos by blast
  have q: "q = of_int a / of_int b" using ab quotient_of_div by blast
  have a: "0 < a" using assms b q by (simp add: zero_less_divide_iff)
  let ?k = "bitlen a - bitlen b"
  show ?thesis
  proof (cases "2 powi ?k \<le> q")
    case True
    then show ?thesis by (simp add: floorLog2_def ab)
  next
    case False
    have la: "1 \<le> bitlen a" using a by (simp add: bitlen_alt_def)
    have lb: "0 \<le> bitlen b" by (rule bitlen_nonneg)
    have n: "(2::rat) powi (bitlen a - 1) \<le> of_int a"
    proof -
      have "(2::int) ^ nat (bitlen a - 1) \<le> a" using bitlen_bounds [OF a] by simp
      then have "(of_int ((2::int) ^ nat (bitlen a - 1)) :: rat) \<le> of_int a"
        by (simp only: of_int_le_iff)
      then show ?thesis using la by (simp add: power_int_def)
    qed
    have d: "(of_int b :: rat) \<le> 2 powi bitlen b"
    proof -
      have "b \<le> (2::int) ^ nat (bitlen b)" using bitlen_bounds [OF b] by simp
      then have "(of_int b :: rat) \<le> of_int ((2::int) ^ nat (bitlen b))"
        by (simp only: of_int_le_iff)
      then show ?thesis using lb by (simp add: power_int_def)
    qed
    have "(2::rat) powi (?k - 1) = 2 powi (bitlen a - 1) / 2 powi bitlen b"
      by (simp add: power_int_diff)
    also have "\<dots> \<le> of_int a / of_int b"
      using n d a b by (intro frac_le) auto
    finally have "(2::rat) powi (?k - 1) \<le> q" by (simp add: q)
    moreover have "floorLog2 q = ?k - 1" using False by (simp add: floorLog2_def ab)
    ultimately show ?thesis by simp
  qed
qed

lemma roundHalfEven_of_int [simp]: "roundHalfEven (of_int z) = z"
  by (simp add: roundHalfEven_def)

lemma roundToDouble_exact:
  assumes q: "q = of_int m * 2 powi e"
    and m: "\<bar>m\<bar> < 2 ^ 53"
    and e: "- 1074 \<le> e" "e \<le> 971"
  shows "roundToDouble q = Fin q"
proof (cases "m = 0")
  case True
  then show ?thesis by (simp add: q roundToDouble_def)
next
  case False
  define a where "a = \<bar>q\<bar>"
  define u where "u = max (floorLog2 a - 52) (- 1074)"
  have nz: "q \<noteq> 0" using False by (simp add: q)
  have a: "a = of_int \<bar>m\<bar> * 2 powi e" by (simp add: a_def q abs_mult)
  have pos: "0 < a" using nz by (simp add: a_def)
  have m': "(of_int \<bar>m\<bar> :: rat) < 2 ^ 53"
  proof -
    have "(of_int \<bar>m\<bar> :: rat) < of_int (2 ^ 53)" using m by (simp only: of_int_less_iff)
    then show ?thesis by simp
  qed
  have lt: "a < 2 powi (53 + e)"
  proof -
    have "a < 2 ^ 53 * 2 powi e" unfolding a using m' by (intro mult_strict_right_mono) auto
    also have "\<dots> = 2 powi (53 + e)" by (simp add: power_int_add)
    finally show ?thesis .
  qed
  have below: "(2::rat) powi floorLog2 a < 2 powi (53 + e)"
    using floorLog2_le [OF pos] lt by simp
  have E: "floorLog2 a < 53 + e"
  proof (rule ccontr)
    assume "\<not> floorLog2 a < 53 + e"
    then have "53 + e \<le> floorLog2 a" by simp
    then have "(2::rat) powi (53 + e) \<le> 2 powi floorLog2 a"
      by (intro power_int_increasing) auto
    with below show False by simp
  qed
  have u: "u \<le> e" using E e by (simp add: u_def)
  have scaled: "a / 2 powi u = of_int (\<bar>m\<bar> * 2 ^ nat (e - u))"
  proof -
    have "a / 2 powi u = of_int \<bar>m\<bar> * 2 powi (e - u)"
      unfolding a by (simp add: power_int_diff)
    also have "\<dots> = of_int (\<bar>m\<bar> * 2 ^ nat (e - u))" using u by (simp add: power_int_def)
    finally show ?thesis .
  qed
  have unscaled: "of_int (\<bar>m\<bar> * 2 ^ nat (e - u)) * 2 powi u = a"
    using scaled by (metis nonzero_divide_eq_eq power_int_eq_0_iff zero_neq_numeral)
  have small: "\<not> 2 ^ 1024 \<le> a"
  proof -
    have "(2::rat) powi (53 + e) \<le> 2 powi 1024" using e by (intro power_int_increasing) auto
    then show ?thesis using lt by simp
  qed
  have "roundToDouble q = Fin (if q < 0 then - a else a)"
    unfolding roundToDouble_def Let_def a_def [symmetric] u_def [symmetric]
    by (simp only: nz if_False scaled roundHalfEven_of_int unscaled small)
  then show ?thesis by (simp add: a_def abs_if)
qed

subsection \<open>The status workflow\<close>

lemma includesTransition_table:
  assumes "from \<in> set orderStatuses"
  shows "includesTransition from to = Some ((from, to) \<in> set transitionTable)"
  using assms
  by (auto simp: includesTransition_def getProperty_def validTransitions_def orderStatuses_def
      transitionTable_def objectPrototypeKeys_def)

lemma completed_not_in_table: "(''COMPLETED'', to) \<notin> set transitionTable"
  by (simp add: transitionTable_def)

lemma sample_authenticated: "authenticated (user sampleRequest) = Some 10"
  by (simp add: sampleRequest_def authenticated_def)

lemma sample_orderId: "parseInt (params_orderId sampleRequest) = Some 1"
  by code_simp

lemma sample_order: "orders (sampleStore st) 1 = Some (sampleOrder st)"
  by (simp add: sampleStore_def)

lemma sample_profile:
  "profiles (sampleStore st) (order.freelancerId (sampleOrder st)) = Some sampleProfile"
  by (simp add: sampleStore_def sampleOrder_def)

lemma sample_client: "clientId (sampleOrder st) = 10"
  by (simp add: sampleOrder_def)

lemma sample_status: "order.status (sampleOrder st) = st"
  by (simp add: sampleOrder_def)

text \<open>
  Claim C1. For an existing order in one of the seven statuses, an actor who is its
  client or the user behind its freelancer, and a target status that is one of the
  seven, \<^verbatim>\<open>updateOrderStatus\<close> succeeds exactly when the pair (current, target) is in
  the transition table or the current status is \<^verbatim>\<open>COMPLETED\<close>; when it does not succeed
  it reports the invalid transition (400), naming the current status and the target,
  and writes nothing.
\<close>

theorem updateOrderStatus_succeeds_iff:
  assumes auth: "authenticated (user req) = Some uid"
    and oid: "parseInt (params_orderId req) = Some oid"
    and ord: "orders s oid = Some ord"
    and fp: "profiles s (order.freelancerId ord) = Some fp"
    and actor: "clientId ord = uid \<or> userId fp = uid"
    and st: "order.status ord \<in> set orderStatuses"
    and target: "body_status req = Some new" "new \<in> set orderStatuses"
  shows "((\<exists>resp s'. updateOrderStatus e s req = (Inr resp, s')) \<longleftrightarrow>
            (order.status ord, new) \<in> set transitionTable
            \<or> order.status ord = ''COMPLETED'')
         \<and> ((\<nexists>resp s'. updateOrderStatus e s req = (Inr resp, s')) \<longrightarrow>
              updateOrderStatus e s req =
                (Inl (ApiError 400
                        (''Invalid status transition from '' @ order.status ord @ '' to ''
                           @ new) None), s))"
proof -
  note inc = includesTransition_table [OF st, of new]
  have supplied: "new \<noteq> []" using target(2) by (auto simp: orderStatuses_def)
  show ?thesis
    using actor supplied
    by (auto simp: updateOrderStatus_def auth oid ord fp target(1) inc Let_def
        invalidTransition_def completed_not_in_table split: bool.splits)
qed

theorem updateOrderStatus_succeeds_iff_witness:
  "order.status (sampleOrder ''PENDING'') \<in> set orderStatuses
   \<and> ''ACCEPTED'' \<in> set orderStatuses \<and> ''IN_PROGRESS'' \<in> set orderStatuses
   \<and> (\<exists>resp s'. updateOrderStatus sampleEnv (sampleStore ''PENDING'')
          (sampleRequest\<lparr>body_status := Some ''ACCEPTED''\<rparr>) = (Inr resp, s'))
   \<and> updateOrderStatus sampleEnv (sampleStore ''PENDING'')
        (sampleRequest\<lparr>body_status := Some ''IN_PROGRESS''\<rparr>)
      = (Inl (ApiError 400 ''Invalid status transition from PENDING to IN_PROGRESS'' None),
         sampleStore ''PENDING'')"
proof -
  let ?yes = "sampleRequest\<lparr>body_status := Some ''ACCEPTED''\<rparr>"
  let ?no = "sampleRequest\<lparr>body_status := Some ''IN_PROGRESS''\<rparr>"
  have a1: "authenticated (user ?yes) = Some 10" using sample_authenticated by simp
  have a2: "authenticated (user ?no) = Some 10" using sample_authenticated by simp
  have o1: "parseInt (params_orderId ?yes) = Some 1" using sample_orderId by simp
  have o2: "parseInt (params_orderId ?no) = Some 1" using sample_orderId by simp
  have actor: "clientId (sampleOrder ''PENDING'') = 10 \<or> userId sampleProfile = 10"
    by (simp add: sample_client)
  have st: "order.status (sampleOrder ''PENDING'') \<in> set orderStatuses"
    by (simp add: sample_status orderStatuses_def)
  have t1: "body_status ?yes = Some ''ACCEPTED''" by simp
  have t2: "body_status ?no = Some ''IN_PROGRESS''" by simp
  have m1: "''ACCEPTED'' \<in> set orderStatuses" by (simp add: orderStatuses_def)
  have m2: "''IN_PROGRESS'' \<in> set orderStatuses" by (simp add: orderStatuses_def)
  from updateOrderStatus_succeeds_iff
         [OF a1 o1 sample_order sample_profile actor st t1 m1, of sampleEnv]
  have yes: "\<exists>resp s'. updateOrderStatus sampleEnv (sampleStore ''PENDING'') ?yes
                         = (Inr resp, s')"
    by (simp add: sample_status transitionTable_def)
  from updateOrderStatus_succeeds_iff
         [OF a2 o2 sample_order sample_profile actor st t2 m2, of sampleEnv]
  have no: "updateOrderStatus sampleEnv (sampleStore ''PENDING'') ?no
              = (Inl (ApiError 400 ''Invalid status transition from PENDING to IN_PROGRESS''
                        None), sampleStore ''PENDING'')"
    by (simp add: sample_status transitionTable_def)
  show ?thesis using st m1 m2 yes no by blast
qed

text \<open>
  Claim C10. For an existing order and an actor who is its client or the user behind its
  freelancer, \<^verbatim>\<open>updateOrderStatus\<close> with a missing or empty target status fails with the
  invalid-transition error (400) and writes nothing, whatever the current status is,
  \<^verbatim>\<open>COMPLETED\<close> included.
\<close>

theorem updateOrderStatus_missing_status:
  assumes auth: "authenticated (user req) = Some uid"
    and oid: "parseInt (params_orderId req) = Some oid"
    and ord: "orders s oid = Some ord"
    and fp: "profiles s (order.freelancerId ord) = Some fp"
    and actor: "clientId ord = uid \<or> userId fp = uid"
    and empty: "body_status req = None \<or> body_status req = Some ''''"
  shows "updateOrderStatus e s req =
           (Inl (ApiError 400
                   (''Invalid status transition from '' @ order.status ord @ '' to ''
                      @ str_template (body_status req)) None), s)"
  using actor empty
  by (auto simp: updateOrderStatus_def auth oid ord fp invalidTransition_def)

theorem updateOrderStatus_missing_status_witness:
  "body_status sampleRequest = None
   \<and> order.status (sampleOrder ''COMPLETED'') = ''COMPLETED''
   \<and> updateOrderStatus sampleEnv (sampleStore ''COMPLETED'') sampleRequest
      = (Inl (ApiError 400 ''Invalid status transition from COMPLETED to undefined'' None),
         sampleStore ''COMPLETED'')"
proof -
  have h5: "clientId (sampleOrder ''COMPLETED'') = 10 \<or> userId sampleProfile = 10"
    by (simp add: sample_client)
  have h6: "body_status sampleRequest = None \<or> body_status sampleRequest = Some ''''"
    by (simp add: sampleRequest_def)
  from updateOrderStatus_missing_status
    [OF sample_authenticated sample_orderId sample_order sample_profile h5 h6, of sampleEnv]
  show ?thesis by (simp add: sample_status sampleRequest_def)
qed

text \<open>
  Claim C2, as the code has it. For an existing order, an authorized actor and a
  non-empty extension reason, a successful \<^verbatim>\<open>updateOrderStatus\<close> whose target status is
  neither \<^verbatim>\<open>CANCELLED\<close> nor \<^verbatim>\<open>COMPLETED\<close> increments the extension counter, stores the
  reason and moves the delivery deadline forward by exactly seven days.
\<close>

theorem updateOrderStatus_extension:
  assumes auth: "authenticated (user req) = Some uid"
    and oid: "parseInt (params_orderId req) = Some oid"
    and ord: "orders s oid = Some ord"
    and fp: "profiles s (order.freelancerId ord) = Some fp"
    and actor: "clientId ord = uid \<or> userId fp = uid"
    and reason: "body_extensionReason req = Some r" "r \<noteq> ''''"
    and target: "body_status req \<noteq> Some ''CANCELLED''" "body_status req \<noteq> Some ''COMPLETED''"
    and ok: "updateOrderStatus e s req = (Inr (ApiResponse code ord' msg), s')"
  shows "deliveryExtensions ord' = deliveryExtensions ord + 1
         \<and> extensionReason ord' = Some r
         \<and> deliveryDeadline ord' = deliveryDeadline ord + 7 * 24 * 60 * 60 * 1000
         \<and> orders s' oid = Some ord'"
proof -
  obtain st where st: "body_status req = Some st" "st \<noteq> ''''"
    using ok actor
    by (cases "body_status req")
       (auto simp: updateOrderStatus_def auth oid ord fp split: if_splits)
  have upd: "ord' = applyStatusUpdate e req uid ord"
    and store: "s' = s\<lparr> orders := (orders s)(oid \<mapsto> ord') \<rparr>"
    using ok actor st
    by (auto simp: updateOrderStatus_def auth oid ord fp Let_def
        split: if_splits option.splits bool.splits)
  show ?thesis
    using st target reason
    by (simp add: upd [unfolded applyStatusUpdate_def Let_def] store applyStatusUpdate_def
        Let_def)
qed

theorem updateOrderStatus_extension_witness:
  "body_extensionReason
     (sampleRequest\<lparr>body_status := Some ''ACCEPTED'',
                     body_extensionReason := Some ''need more time''\<rparr>)
     = Some ''need more time''
   \<and> deliveryExtensions (sampleOrder ''PENDING'') = 0
   \<and> deliveryDeadline (sampleOrder ''PENDING'') = 5000
   \<and> deliveryExtensions
        (applyStatusUpdate sampleEnv
           (sampleRequest\<lparr>body_status := Some ''ACCEPTED'',
                           body_extensionReason := Some ''need more time''\<rparr>)
           10 (sampleOrder ''PENDING'')) = 1
   \<and> extensionReason
        (applyStatusUpdate sampleEnv
           (sampleRequest\<lparr>body_status := Some ''ACCEPTED'',
                           body_extensionReason := Some ''need more time''\<rparr>)
           10 (sampleOrder ''PENDING'')) = Some ''need more time''
   \<and> deliveryDeadline
        (applyStatusUpdate sampleEnv
           (sampleRequest\<lparr>body_status := Some ''ACCEPTED'',
                           body_extensionReason := Some ''need more time''\<rparr>)
           10 (sampleOrder ''PENDING'')) = 604805000"
proof -
  let ?req = "sampleRequest\<lparr>body_status := Some ''ACCEPTED'',
                             body_extensionReason := Some ''need more time''\<rparr>"
  let ?s = "sampleStore ''PENDING''"
  let ?ord' = "applyStatusUpdate sampleEnv ?req 10 (sampleOrder ''PENDING'')"
  have h1: "authenticated (user ?req) = Some 10" using sample_authenticated by simp
  have h2: "parseInt (params_orderId ?req) = Some 1" using sample_orderId by simp
  have h5: "clientId (sampleOrder ''PENDING'') = 10 \<or> userId sampleProfile = 10"
    by (simp add: sample_client)
  have h6: "body_extensionReason ?req = Some ''need more time''" by simp
  have h7: "''need more time'' \<noteq> ''''" by simp
  have h8: "body_status ?req \<noteq> Some ''CANCELLED''" by simp
  have h9: "body_status ?req \<noteq> Some ''COMPLETED''" by simp
  have ok: "updateOrderStatus sampleEnv ?s ?req
              = (Inr (ApiResponse 200 ?ord' ''Order status updated successfully''),
                 ?s\<lparr> orders := (orders ?s)(1 \<mapsto> ?ord') \<rparr>)"
    by (simp add: updateOrderStatus_def sample_authenticated sample_orderId sample_order sample_profile sample_client
        sample_status includesTransition_def getProperty_def validTransitions_def Let_def)
  from updateOrderStatus_extension
    [OF h1 h2 sample_order sample_profile h5 h6 h7 h8 h9 ok]
  show ?thesis by (simp add: sampleOrder_def)
qed

text \<open>
  The claim as first stated promises the bookkeeping for every target status. A
  successful cancellation that carries an extension reason records the cancellation and
  leaves the counter, the reason and the deadline as they were.
\<close>

theorem updateOrderStatus_cancel_ignores_extension:
  "updateOrderStatus sampleEnv (sampleStore ''PENDING'')
     (sampleRequest\<lparr>body_status := Some ''CANCELLED'',
                     body_extensionReason := Some ''need more time''\<rparr>)
   = (Inr (ApiResponse 200
             (applyStatusUpdate sampleEnv
                (sampleRequest\<lparr>body_status := Some ''CANCELLED'',
                                body_extensionReason := Some ''need more time''\<rparr>)
                10 (sampleOrder ''PENDING''))
             ''Order status updated successfully''),
      (sampleStore ''PENDING'')
        \<lparr> orders :=
            (orders (sampleStore ''PENDING''))
              (1 \<mapsto> applyStatusUpdate sampleEnv
                     (sampleRequest\<lparr>body_status := Some ''CANCELLED'',
                                     body_extensionReason := Some ''need more time''\<rparr>)
                     10 (sampleOrder ''PENDING'')) \<rparr>)
   \<and> order.status
        (applyStatusUpdate sampleEnv
           (sampleRequest\<lparr>body_status := Some ''CANCELLED'',
                           body_extensionReason := Some ''need more time''\<rparr>)
           10 (sampleOrder ''PENDING'')) = ''CANCELLED''
   \<and> deliveryExtensions
        (applyStatusUpdate sampleEnv
           (sampleRequest\<lparr>body_status := Some ''CANCELLED'',
                           body_extensionReason := Some ''need more time''\<rparr>)
           10 (sampleOrder ''PENDING'')) = deliveryExtensions (sampleOrder ''PENDING'')
   \<and> extensionReason
        (applyStatusUpdate sampleEnv
           (sampleRequest\<lparr>body_status := Some ''CANCELLED'',
                           body_extensionReason := Some ''need more time''\<rparr>)
           10 (sampleOrder ''PENDING'')) = None
   \<and> deliveryDeadline
        (applyStatusUpdate sampleEnv
           (sampleRequest\<lparr>body_status := Some ''CANCELLED'',
                           body_extensionReason := Some ''need more time''\<rparr>)
           10 (sampleOrder ''PENDING'')) = deliveryDeadline (sampleOrder ''PENDING'')"
proof -
  have run: "updateOrderStatus sampleEnv (sampleStore ''PENDING'')
     (sampleRequest\<lparr>body_status := Some ''CANCELLED'',
                     body_extensionReason := Some ''need more time''\<rparr>)
   = (Inr (ApiResponse 200
             (applyStatusUpdate sampleEnv
                (sampleRequest\<lparr>body_status := Some ''CANCELLED'',
                                body_extensionReason := Some ''need more time''\<rparr>)
                10 (sampleOrder ''PENDING''))
             ''Order status updated successfully''),
      (sampleStore ''PENDING'')
        \<lparr> orders :=
            (orders (sampleStore ''PENDING''))
              (1 \<mapsto> applyStatusUpdate sampleEnv
                     (sampleRequest\<lparr>body_status := Some ''CANCELLED'',
                                     body_extensionReason := Some ''need more time''\<rparr>)
                     10 (sampleOrder ''PENDING'')) \<rparr>)"
    by (simp add: updateOrderStatus_def sample_authenticated sample_orderId sample_order
        sample_profile sample_client sample_status includesTransition_def getProperty_def
        validTransitions_def Let_def)
  show ?thesis
    by (simp add: run) (simp add: applyStatusUpdate_def Let_def sampleOrder_def)
qed

text \<open>
  Claim C7. For an existing order and an actor who is its client or the user behind its
  freelancer, \<^verbatim>\<open>cancelOrder\<close> fails with a 400 error, writing nothing, when the current
  status is not one of \<^verbatim>\<open>PENDING\<close>, \<^verbatim>\<open>ACCEPTED\<close>, \<^verbatim>\<open>IN_PROGRESS\<close>; otherwise it
  succeeds, sets the status to \<^verbatim>\<open>CANCELLED\<close>, stores the reason given (\<^verbatim>\<open>Not specified\<close>
  when it is missing or empty) and the time of the call, and appends exactly one
  history entry, recording \<^verbatim>\<open>CANCELLED\<close> and the actor.
\<close>

theorem cancelOrder_spec:
  assumes auth: "authenticated (user req) = Some uid"
    and oid: "parseInt (params_orderId req) = Some oid"
    and ord: "orders s oid = Some ord"
    and actor: "clientId ord = uid
                \<or> (\<exists>fp. profiles s (order.freelancerId ord) = Some fp \<and> userId fp = uid)"
  shows "(order.status ord \<notin> {''PENDING'', ''ACCEPTED'', ''IN_PROGRESS''} \<longrightarrow>
            cancelOrder e s req =
              (Inl (ApiError 400 ''Order cannot be cancelled in its current status'' None), s))
         \<and> (order.status ord \<in> {''PENDING'', ''ACCEPTED'', ''IN_PROGRESS''} \<longrightarrow>
              (\<exists>ord'. cancelOrder e s req =
                        (Inr (ApiResponse 200 ord' ''Order cancelled successfully''),
                         s\<lparr> orders := (orders s)(oid \<mapsto> ord') \<rparr>)
                 \<and> order.status ord' = ''CANCELLED''
                 \<and> cancellationReason ord' =
                     Some (if body_cancellationReason req = None
                              \<or> body_cancellationReason req = Some ''''
                           then ''Not specified'' else the (body_cancellationReason req))
                 \<and> cancellationDate ord' = Some (now e)
                 \<and> statusHistory ord' =
                     statusHistory ord
                       @ [\<lparr> status_history.status = ''CANCELLED'', changedBy = Some uid \<rparr>]))"
proof -
  have own: "cancelOrder e s req = cancelOwnOrder e s req uid oid ord"
    using actor by (auto simp: cancelOrder_def auth oid ord)
  show ?thesis
    unfolding own
    by (auto simp: cancelOwnOrder_def Let_def str_or_def split: option.splits)
qed

theorem cancelOrder_spec_witness:
  "order.status (sampleOrder ''ACCEPTED'') \<in> {''PENDING'', ''ACCEPTED'', ''IN_PROGRESS''}
   \<and> authenticated (user (sampleRequest\<lparr>user := Some \<lparr>user_id = Some 20, user_role = ''FREELANCER''\<rparr>\<rparr>)) = Some 20
   \<and> (\<exists>ord'. cancelOrder sampleEnv (sampleStore ''ACCEPTED'')
                 (sampleRequest\<lparr>user := Some \<lparr>user_id = Some 20, user_role = ''FREELANCER''\<rparr>\<rparr>)
               = (Inr (ApiResponse 200 ord' ''Order cancelled successfully''),
                  (sampleStore ''ACCEPTED'')\<lparr> orders := (orders (sampleStore ''ACCEPTED''))(1 \<mapsto> ord') \<rparr>)
             \<and> order.status ord' = ''CANCELLED''
             \<and> cancellationReason ord' = Some ''Not specified''
             \<and> cancellationDate ord' = Some 1000000
             \<and> statusHistory ord' =
                 [\<lparr> status_history.status = ''PENDING'', changedBy = None \<rparr>,
                  \<lparr> status_history.status = ''CANCELLED'', changedBy = Some 20 \<rparr>])"
proof -
  let ?req = "sampleRequest\<lparr>user := Some \<lparr>user_id = Some 20, user_role = ''FREELANCER''\<rparr>\<rparr>"
  have h1: "authenticated (user ?req) = Some 20" by (simp add: authenticated_def)
  have h2: "parseInt (params_orderId ?req) = Some 1" using sample_orderId by simp
  have h4: "clientId (sampleOrder ''ACCEPTED'') = 20
            \<or> (\<exists>fp. profiles (sampleStore ''ACCEPTED'') (order.freelancerId (sampleOrder ''ACCEPTED''))
                       = Some fp \<and> userId fp = 20)"
    by (simp add: sample_profile sampleProfile_def)
  have h5: "order.status (sampleOrder ''ACCEPTED'') \<in> {''PENDING'', ''ACCEPTED'', ''IN_PROGRESS''}"
    by (simp add: sample_status)
  have h6: "body_cancellationReason ?req = None" by (simp add: sampleRequest_def)
  from cancelOrder_spec [OF h1 h2 sample_order h4, of sampleEnv] h5
  show ?thesis
    using h1 by (simp add: h6) (simp add: sampleEnv_def sampleOrder_def)
qed

text \<open>
  Claim C5, as the code has it. For an existing \<^verbatim>\<open>ACTIVE\<close> gig and a non-empty selected
  package that is not the name of a property every object inherits, \<^verbatim>\<open>createOrder\<close>
  fails with the error \<^verbatim>\<open>Invalid package selected\<close> (400) exactly when the package is not
  a key of the gig's pricing table or its price there is \<open>0\<close>; for every key with another
  price the error is not raised.
\<close>

theorem createOrder_invalid_package_iff:
  assumes auth: "authenticated (user req) = Some cid"
    and gid: "id_truthy (body_gigId req)" "parseIntId (body_gigId req) = Some gid"
    and g: "gigs s gid = Some g"
    and active: "gig.status g = ''ACTIVE''"
    and pkg: "body_selectedPackage req = Some pkg" "pkg \<noteq> ''''"
    and own: "pkg \<notin> set objectPrototypeKeys"
  shows "createOrder e s req = (Inl (ApiError 400 ''Invalid package selected'' None), s)
           \<longleftrightarrow> pricing g pkg = None \<or> pricing g pkg = Some 0"
  using own
  by (auto simp: createOrder_def auth gid g active pkg getProperty_def Let_def
      split: option.splits)

theorem createOrder_invalid_package_iff_witness:
  "gigs (sampleStore ''PENDING'') 7 = Some sampleGig
   \<and> gig.status sampleGig = ''ACTIVE''
   \<and> pricing sampleGig ''premium'' = None
   \<and> createOrder sampleEnv (sampleStore ''PENDING'')
        (sampleRequest\<lparr>body_gigId := Some (IdNum 7), body_selectedPackage := Some ''premium''\<rparr>)
      = (Inl (ApiError 400 ''Invalid package selected'' None), sampleStore ''PENDING'')"
proof -
  let ?req = "sampleRequest\<lparr>body_gigId := Some (IdNum 7),
                             body_selectedPackage := Some ''premium''\<rparr>"
  have h1: "authenticated (user ?req) = Some 10" using sample_authenticated by simp
  have h2: "id_truthy (body_gigId ?req)" by simp
  have h3: "parseIntId (body_gigId ?req) = Some 7" by simp
  have h4: "gigs (sampleStore ''PENDING'') 7 = Some sampleGig" by (simp add: sampleStore_def)
  have h5: "gig.status sampleGig = ''ACTIVE''" by (simp add: sampleGig_def)
  have h6: "body_selectedPackage ?req = Some ''premium''" by simp
  have h7: "''premium'' \<noteq> ''''" by simp
  have h8: "''premium'' \<notin> set objectPrototypeKeys" by (simp add: objectPrototypeKeys_def)
  have h9: "pricing sampleGig ''premium'' = None" by (simp add: sampleGig_def)
  from createOrder_invalid_package_iff [OF h1 h2 h3 h4 h5 h6 h7 h8, of sampleEnv]
  show ?thesis using h4 h5 h9 by simp
qed

text \<open>
  The claim as first stated lets no key of the pricing table raise the error. A package
  that is a key of the table with price \<open>0\<close> is refused as an invalid package.
\<close>

theorem createOrder_zero_price_rejected:
  "gigs (sampleStore ''PENDING'') 7 = Some sampleGig
   \<and> gig.status sampleGig = ''ACTIVE''
   \<and> pricing sampleGig ''free'' = Some 0
   \<and> createOrder sampleEnv (sampleStore ''PENDING'')
        (sampleRequest\<lparr>body_gigId := Some (IdNum 7), body_selectedPackage := Some ''free''\<rparr>)
      = (Inl (ApiError 400 ''Invalid package selected'' None), sampleStore ''PENDING'')"
  by (simp add: createOrder_def sample_authenticated getProperty_def sampleStore_def
      sampleGig_def)

lemma orderPrices_urgent:
  assumes "orderPrices urgent price = Some (charged, fee)" and "truthy urgent"
  shows "roundToDouble (1.5 * price) = Fin charged
         \<and> (\<exists>f. fee = Some f \<and> roundToDouble (0.5 * price) = Fin f)"
  using assms by (auto simp: orderPrices_def jsTimes_def mult.commute split: jsnum.splits)

lemma orderPrices_plain:
  assumes "orderPrices urgent price = Some (charged, fee)" and "\<not> truthy urgent"
  shows "charged = price \<and> fee = None"
  using assms by (simp add: orderPrices_def)

text \<open>One and a half times, and half of, an integer below \<open>2^51\<close> are doubles.\<close>

lemma integral_price_products:
  assumes "\<bar>p\<bar> < 2 ^ 51"
  shows "roundToDouble (1.5 * of_int p) = Fin (1.5 * of_int p)"
    and "roundToDouble (0.5 * of_int p) = Fin (0.5 * of_int p)"
proof -
  have three: "\<bar>3 * p\<bar> < 2 ^ 53" using assms by simp
  have "(1.5 :: rat) * of_int p = of_int (3 * p) * 2 powi (- 1)"
    by (simp add: power_int_minus)
  from roundToDouble_exact [OF this three]
  show "roundToDouble (1.5 * of_int p) = Fin (1.5 * of_int p)" by simp
  have one: "\<bar>p\<bar> < 2 ^ 53" using assms by simp
  have "(0.5 :: rat) * of_int p = of_int p * 2 powi (- 1)"
    by (simp add: power_int_minus)
  from roundToDouble_exact [OF this one]
  show "roundToDouble (0.5 * of_int p) = Fin (0.5 * of_int p)" by simp
qed

text \<open>
  Claim C9, as the code has it. Every successful \<^verbatim>\<open>createOrder\<close> has found the gig and
  the price of the selected package in its pricing table. With \<^verbatim>\<open>isUrgent = true\<close> the
  total price of the created order is 1.5 times that price and its priority fee 0.5
  times that price, each rounded to the nearest double, as the multiplication of two
  JavaScript numbers is; for a price that is an integer below \<open>2^51\<close> in magnitude they
  are exactly 1.5 times and 0.5 times the price. With \<^verbatim>\<open>isUrgent = false\<close> the total
  price is the price and there is no priority fee. The order returned is the order
  stored.
\<close>

theorem createOrder_pricing:
  assumes ok: "createOrder e s req = (Inr (ApiResponse code ord msg), s')"
  shows "\<exists>gid g pkg price.
           parseIntId (body_gigId req) = Some gid \<and> gigs s gid = Some g
           \<and> body_selectedPackage req = Some pkg \<and> pricing g pkg = Some price
           \<and> (body_isUrgent req = JBool True \<longrightarrow>
                 roundToDouble (1.5 * price) = Fin (totalPrice ord)
                 \<and> (\<exists>fee. priorityFee ord = Some fee
                           \<and> roundToDouble (0.5 * price) = Fin fee)
                 \<and> (\<forall>p. price = of_int p \<and> \<bar>p\<bar> < 2 ^ 51 \<longrightarrow>
                        totalPrice ord = 1.5 * price
                        \<and> priorityFee ord = Some (0.5 * price)))
           \<and> (body_isUrgent req = JBool False \<longrightarrow>
                 totalPrice ord = price \<and> priorityFee ord = None)
           \<and> orders s' (nextOrderId s) = Some ord"
proof -
  from ok obtain cid gid g pkg price charged fee where
    found: "parseIntId (body_gigId req) = Some gid" "gigs s gid = Some g"
      "body_selectedPackage req = Some pkg" "pricing g pkg = Some price"
    and prices: "orderPrices (body_isUrgent req) price = Some (charged, fee)"
    and made: "ord = newOrder e (nextOrderId s) cid g charged fee req"
      "s' = s\<lparr> orders := (orders s)(nextOrderId s \<mapsto> ord),
                nextOrderId := nextOrderId s + 1 \<rparr>"
    by (cases "body_selectedPackage req")
       (auto simp: createOrder_def getProperty_def Let_def
        split: option.splits if_splits property.splits)
  have charged: "totalPrice ord = charged" and fee: "priorityFee ord = fee"
    using made(1) by (simp_all add: newOrder_def)
  have urgent: "roundToDouble (1.5 * price) = Fin (totalPrice ord)
                \<and> (\<exists>f. priorityFee ord = Some f \<and> roundToDouble (0.5 * price) = Fin f)"
    if "body_isUrgent req = JBool True"
    using orderPrices_urgent [OF prices] that by (simp add: charged fee)
  have exact: "totalPrice ord = 1.5 * price \<and> priorityFee ord = Some (0.5 * price)"
    if "body_isUrgent req = JBool True" "price = of_int p" "\<bar>p\<bar> < 2 ^ 51" for p
    using urgent [OF that(1)] integral_price_products [OF that(3)] that(2) by auto
  have plain: "totalPrice ord = price \<and> priorityFee ord = None"
    if "body_isUrgent req = JBool False"
    using orderPrices_plain [OF prices] that by (simp add: charged fee)
  have stored: "orders s' (nextOrderId s) = Some ord" using made(2) by simp
  show ?thesis
    using found urgent exact plain stored by blast
qed

lemma centsPrice_is_1999: "roundToDouble (1999 / 100) = Fin centsPrice"
  by code_simp

lemma centsPrice_prices:
  "orderPrices (JBool True) centsPrice
     = Some (2110006794167255 / 2 ^ 46, Some (5626684784446013 / 2 ^ 49))"
  by code_simp

lemma hundred_prices: "orderPrices (JBool True) 100 = Some (150, Some 50)"
  by code_simp

theorem createOrder_pricing_witness:
  "createOrder sampleEnv (sampleStore ''PENDING'')
     (sampleRequest\<lparr>body_gigId := Some (IdNum 7), body_selectedPackage := Some ''basic'',
                     body_isUrgent := JBool True\<rparr>)
   = (Inr (ApiResponse 201
             (newOrder sampleEnv 2 10 sampleGig 150 (Some 50)
                (sampleRequest\<lparr>body_gigId := Some (IdNum 7),
                                body_selectedPackage := Some ''basic'',
                                body_isUrgent := JBool True\<rparr>))
             ''Order created successfully''),
      (sampleStore ''PENDING'')
        \<lparr> orders :=
            (orders (sampleStore ''PENDING''))
              (2 \<mapsto> newOrder sampleEnv 2 10 sampleGig 150 (Some 50)
                     (sampleRequest\<lparr>body_gigId := Some (IdNum 7),
                                     body_selectedPackage := Some ''basic'',
                                     body_isUrgent := JBool True\<rparr>)),
          nextOrderId := 3 \<rparr>)
   \<and> pricing sampleGig ''basic'' = Some 100
   \<and> totalPrice
        (newOrder sampleEnv 2 10 sampleGig 150 (Some 50)
           (sampleRequest\<lparr>body_gigId := Some (IdNum 7), body_selectedPackage := Some ''basic'',
                           body_isUrgent := JBool True\<rparr>)) = 1.5 * 100
   \<and> priorityFee
        (newOrder sampleEnv 2 10 sampleGig 150 (Some 50)
           (sampleRequest\<lparr>body_gigId := Some (IdNum 7), body_selectedPackage := Some ''basic'',
                           body_isUrgent := JBool True\<rparr>)) = Some (0.5 * 100)"
proof -
  let ?req = "sampleRequest\<lparr>body_gigId := Some (IdNum 7), body_selectedPackage := Some ''basic'',
                             body_isUrgent := JBool True\<rparr>"
  let ?ord = "newOrder sampleEnv 2 10 sampleGig 150 (Some 50) ?req"
  let ?s = "sampleStore ''PENDING''"
  have ok: "createOrder sampleEnv ?s ?req
              = (Inr (ApiResponse 201 ?ord ''Order created successfully''),
                 ?s\<lparr> orders := (orders ?s)(2 \<mapsto> ?ord), nextOrderId := 3 \<rparr>)"
    by (simp add: createOrder_def sample_authenticated getProperty_def sampleStore_def
        sampleGig_def Let_def hundred_prices)
  have basic: "pricing sampleGig ''basic'' = Some 100" by (simp add: sampleGig_def)
  from createOrder_pricing [OF ok]
  obtain gid g pkg price where
    a: "parseIntId (body_gigId ?req) = Some gid" "gigs ?s gid = Some g"
       "body_selectedPackage ?req = Some pkg" "pricing g pkg = Some price"
    and b: "body_isUrgent ?req = JBool True \<longrightarrow>
              (\<forall>p. price = of_int p \<and> \<bar>p\<bar> < 2 ^ 51 \<longrightarrow>
                 totalPrice ?ord = 1.5 * price \<and> priorityFee ?ord = Some (0.5 * price))"
    by blast
  from a have "gid = 7" by simp
  with a have "g = sampleGig" by (simp add: sampleStore_def)
  with a have price: "price = of_int 100" by (auto simp: sampleGig_def)
  have "\<bar>100 :: int\<bar> < 2 ^ 51" by simp
  with b price have "totalPrice ?ord = 1.5 * price \<and> priorityFee ?ord = Some (0.5 * price)"
    by simp
  with price have "totalPrice ?ord = 1.5 * 100 \<and> priorityFee ?ord = Some (0.5 * 100)" by simp
  with ok basic show ?thesis by blast
qed

text \<open>
  The claim as first stated makes the total price exactly 1.5 times the price. For the
  package at 19.99 the product has 54 significant bits and is rounded: the total price
  stored is not 1.5 times the price.
\<close>

theorem createOrder_total_price_rounded:
  "createOrder sampleEnv ((sampleStore ''PENDING'')\<lparr>gigs := [8 \<mapsto> centsGig]\<rparr>)
     (sampleRequest\<lparr>body_gigId := Some (IdNum 8), body_selectedPackage := Some ''pro'',
                     body_isUrgent := JBool True\<rparr>)
   = (Inr (ApiResponse 201
             (newOrder sampleEnv 2 10 centsGig (2110006794167255 / 2 ^ 46)
                (Some (5626684784446013 / 2 ^ 49))
                (sampleRequest\<lparr>body_gigId := Some (IdNum 8),
                                body_selectedPackage := Some ''pro'',
                                body_isUrgent := JBool True\<rparr>))
             ''Order created successfully''),
      (sampleStore ''PENDING'')
        \<lparr> gigs := [8 \<mapsto> centsGig],
          orders :=
            (orders (sampleStore ''PENDING''))
              (2 \<mapsto> newOrder sampleEnv 2 10 centsGig (2110006794167255 / 2 ^ 46)
                     (Some (5626684784446013 / 2 ^ 49))
                     (sampleRequest\<lparr>body_gigId := Some (IdNum 8),
                                     body_selectedPackage := Some ''pro'',
                                     body_isUrgent := JBool True\<rparr>)),
          nextOrderId := 3 \<rparr>)
   \<and> pricing centsGig ''pro'' = Some centsPrice
   \<and> totalPrice
        (newOrder sampleEnv 2 10 centsGig (2110006794167255 / 2 ^ 46)
           (Some (5626684784446013 / 2 ^ 49))
           (sampleRequest\<lparr>body_gigId := Some (IdNum 8), body_selectedPackage := Some ''pro'',
                           body_isUrgent := JBool True\<rparr>)) = 16880054353338040 / 2 ^ 49
   \<and> 1.5 * centsPrice = 16880054353338039 / 2 ^ 49
   \<and> totalPrice
        (newOrder sampleEnv 2 10 centsGig (2110006794167255 / 2 ^ 46)
           (Some (5626684784446013 / 2 ^ 49))
           (sampleRequest\<lparr>body_gigId := Some (IdNum 8), body_selectedPackage := Some ''pro'',
                           body_isUrgent := JBool True\<rparr>)) \<noteq> 1.5 * centsPrice"
proof -
  let ?req = "sampleRequest\<lparr>body_gigId := Some (IdNum 8), body_selectedPackage := Some ''pro'',
                             body_isUrgent := JBool True\<rparr>"
  have nz: "centsPrice \<noteq> 0" by (simp add: centsPrice_def)
  have run: "createOrder sampleEnv ((sampleStore ''PENDING'')\<lparr>gigs := [8 \<mapsto> centsGig]\<rparr>) ?req
   = (Inr (ApiResponse 201
             (newOrder sampleEnv 2 10 centsGig (2110006794167255 / 2 ^ 46)
                (Some (5626684784446013 / 2 ^ 49)) ?req)
             ''Order created successfully''),
      (sampleStore ''PENDING'')
        \<lparr> gigs := [8 \<mapsto> centsGig],
          orders :=
            (orders (sampleStore ''PENDING''))
              (2 \<mapsto> newOrder sampleEnv 2 10 centsGig (2110006794167255 / 2 ^ 46)
                     (Some (5626684784446013 / 2 ^ 49)) ?req),
          nextOrderId := 3 \<rparr>)"
    by (simp add: createOrder_def sample_authenticated getProperty_def sampleStore_def
        centsGig_def Let_def centsPrice_prices nz)
  show ?thesis
    by (simp only: run) (simp add: newOrder_def centsGig_def centsPrice_def)
qed

subsection \<open>Jobs\<close>

lemma sampleJob_authenticated: "authenticated (user sampleJobRequest) = Some 10"
  by (simp add: sampleJobRequest_def authenticated_def)

lemma parseInt_5: "parseInt ''5'' = Some 5"
  by code_simp

lemma sampleJob_jobId: "parseInt (params_jobId sampleJobRequest) = Some 5"
  by (simp add: sampleJobRequest_def parseInt_5)

text \<open>
  What \<^verbatim>\<open>createJob\<close> does with an attachment: a file that is not a video is refused
  (400); a video reaches the call of the unbound uploader and ends in the 500 error.
  Nothing is stored either way.
\<close>

lemma createJob_attachment:
  assumes "authenticated (user req) = Some pid"
    and "files_videoFile req = Some file"
  shows "createJob e s req =
           (if startsWith (mimetype file) ''video/''
            then (Inl (ApiError 500 ''Failed to post job''
                         (Some ''uploadFileToS3 is not defined'')), s)
            else (Inl (ApiError 400 ''Invalid file type. Only videos are allowed'' None), s))"
  using assms by (simp add: createJob_def)

text \<open>
  Claim C3 at a video attachment: the claim promises an upload, the stored URL and
  success; the handler ends in the 500 error and stores no job.
\<close>

theorem createJob_video_attachment_fails:
  "startsWith (mimetype \<lparr> mimetype = ''video/mp4'', fileName = ''intro.mp4'' \<rparr>) ''video/''
   \<and> createJob sampleEnv sampleJobStore
        (sampleJobRequest
           \<lparr>files_videoFile := Some \<lparr> mimetype = ''video/mp4'', fileName = ''intro.mp4'' \<rparr>\<rparr>)
      = (Inl (ApiError 500 ''Failed to post job'' (Some ''uploadFileToS3 is not defined'')),
         sampleJobStore)"
proof -
  let ?file = "\<lparr> mimetype = ''video/mp4'', fileName = ''intro.mp4'' \<rparr>"
  let ?req = "sampleJobRequest\<lparr>files_videoFile := Some ?file\<rparr>"
  have video: "startsWith (mimetype ?file) ''video/''" by (simp add: startsWith_def)
  have a: "authenticated (user ?req) = Some 10" using sampleJob_authenticated by simp
  have f: "files_videoFile ?req = Some ?file" by simp
  show ?thesis using createJob_attachment [OF a f, of sampleEnv sampleJobStore] video by simp
qed

text \<open>
  What the budget checks of \<^verbatim>\<open>updateJob\<close> do for the owner of a job: a supplied
  \<^verbatim>\<open>budgetMin\<close> that does not read as a number, or reads as a negative one, is refused;
  a supplied \<^verbatim>\<open>budgetMax\<close> is refused when it is less than the stored minimum, if no
  new minimum is supplied, and when it is less than the new minimum, if that is not zero.
\<close>

lemma updateJob_budget_checks:
  assumes auth: "authenticated (user req) = Some uid"
    and jid: "parseInt (params_jobId req) = Some jid"
    and j: "jobs s jid = Some j"
    and owner: "postedById j = uid"
  shows "(body_budgetMin req \<noteq> JUndefined
            \<and> (isNaN (parseFloat (body_budgetMin req))
                \<or> num_less (parseFloat (body_budgetMin req)) (Fin 0))
          \<longrightarrow> updateJob e s req = (Inl (ApiError 400 ''Invalid budgetMin value'' None), s))
       \<and> (body_budgetMin req = JUndefined \<and> body_budgetMax req \<noteq> JUndefined
            \<and> num_less (parseFloat (body_budgetMax req)) (ToNumber (budgetMin j))
          \<longrightarrow> updateJob e s req =
                (Inl (ApiError 400 ''Invalid budgetMax value; must be greater than budgetMin''
                        None), s))
       \<and> (body_budgetMin req \<noteq> JUndefined
            \<and> \<not> isNaN (parseFloat (body_budgetMin req))
            \<and> \<not> num_less (parseFloat (body_budgetMin req)) (Fin 0)
            \<and> num_truthy (parseFloat (body_budgetMin req))
            \<and> body_budgetMax req \<noteq> JUndefined
            \<and> num_less (parseFloat (body_budgetMax req)) (parseFloat (body_budgetMin req))
          \<longrightarrow> updateJob e s req =
                (Inl (ApiError 400 ''Invalid budgetMax value; must be greater than budgetMin''
                        None), s))"
proof -
  have run: "updateJob e s req = (Inl err, s)" if "buildUpdateData e j req = Inl err" for err
    using owner that by (simp add: updateJob_def auth jid j)
  have floor_head: "budgetFloor j (headFields req emptyUpdate) = ToNumber (budgetMin j)"
    by (simp add: budgetFloor_def headFields_def emptyUpdate_def Let_def)
  have floor_new: "num_truthy m \<Longrightarrow> budgetFloor j (u\<lparr> upd_budgetMin := Some m \<rparr>) = m" for m u
    by (simp add: budgetFloor_def)
  show ?thesis
    by (intro conjI impI; rule run)
       (auto simp: buildUpdateData_def budgetMinStep_def budgetMaxStep_def Let_def
        floor_head floor_new)
qed

text \<open>
  Claim C4 at a new \<^verbatim>\<open>budgetMin\<close> of \<open>0\<close>. The stored budget is 100 to 500. A request
  for the budget 0 to 50 is refused, although 50 is not less than the new minimum: the
  new minimum, being zero, is passed over for the stored one. The same maximum with a
  new minimum of 1 is accepted. And where the stored minimum is negative, a request for
  the budget 0 to -5 is accepted, although -5 is less than the new minimum.
\<close>

theorem updateJob_zero_budgetMin:
  "updateJob sampleEnv sampleJobStore
     (sampleJobRequest\<lparr>body_budgetMin := JNum (Fin 0), body_budgetMax := JNum (Fin 50)\<rparr>)
   = (Inl (ApiError 400 ''Invalid budgetMax value; must be greater than budgetMin'' None),
      sampleJobStore)
   \<and> updateJob sampleEnv sampleJobStore
       (sampleJobRequest\<lparr>body_budgetMin := JNum (Fin 1), body_budgetMax := JNum (Fin 50)\<rparr>)
     = (Inr (ApiResponse 200
               (sampleJob\<lparr>budgetMin := JNum (Fin 1), budgetMax := JNum (Fin 50)\<rparr>)
               ''Job updated successfully''),
        sampleJobStore
          \<lparr>jobs := [5 \<mapsto> sampleJob\<lparr>budgetMin := JNum (Fin 1), budgetMax := JNum (Fin 50)\<rparr>]\<rparr>)
   \<and> updateJob sampleEnv
       (sampleJobStore\<lparr>jobs := [5 \<mapsto> sampleJob\<lparr>budgetMin := JNum (Fin (- 10))\<rparr>]\<rparr>)
       (sampleJobRequest\<lparr>body_budgetMin := JNum (Fin 0), body_budgetMax := JNum (Fin (- 5))\<rparr>)
     = (Inr (ApiResponse 200
               (sampleJob\<lparr>budgetMin := JNum (Fin 0), budgetMax := JNum (Fin (- 5))\<rparr>)
               ''Job updated successfully''),
        sampleJobStore
          \<lparr>jobs := [5 \<mapsto> sampleJob\<lparr>budgetMin := JNum (Fin 0), budgetMax := JNum (Fin (- 5))\<rparr>]\<rparr>)"
  by (simp add: updateJob_def authenticated_def parseInt_5 buildUpdateData_def
      headFields_def middleFields_def tailFields_def budgetMinStep_def budgetMaxStep_def
      budgetFloor_def deadlineStep_def emailStep_def emptyUpdate_def writeUpdate_def Let_def
      sampleJobRequest_def sampleJobStore_def sampleJob_def)

text \<open>
  Claim C8. For a job that exists and an authenticated actor who is not its owner,
  \<^verbatim>\<open>updateJob\<close> and \<^verbatim>\<open>deleteJob\<close> answer with the 404 error and leave the store, and so
  the job, as it was; against any store in which the job does not exist they give the
  same error.
\<close>

theorem job_not_owner_not_found:
  assumes auth: "authenticated (user req) = Some uid"
    and jid: "parseInt (params_jobId req) = Some jid"
    and j: "jobs s jid = Some j"
    and other: "postedById j \<noteq> uid"
  shows "updateJob e s req = (Inl (ApiError 404 notFoundOrNotOwned None), s)
         \<and> deleteJob e s req = (Inl (ApiError 404 notFoundOrNotOwned None), s)
         \<and> (\<forall>s0. jobs s0 jid = None \<longrightarrow>
                fst (updateJob e s0 req) = fst (updateJob e s req)
                \<and> fst (deleteJob e s0 req) = fst (deleteJob e s req))"
  using other by (simp add: updateJob_def deleteJob_def auth jid j)

theorem job_not_owner_not_found_witness:
  "postedById sampleJob \<noteq> 11
   \<and> updateJob sampleEnv sampleJobStore
        (sampleJobRequest\<lparr>user := Some \<lparr> user_id = Some 11, user_role = ''CLIENT'' \<rparr>,
                          body_title := JStr ''Mine now''\<rparr>)
      = (Inl (ApiError 404 notFoundOrNotOwned None), sampleJobStore)
   \<and> deleteJob sampleEnv sampleJobStore
        (sampleJobRequest\<lparr>user := Some \<lparr> user_id = Some 11, user_role = ''CLIENT'' \<rparr>,
                          body_title := JStr ''Mine now''\<rparr>)
      = (Inl (ApiError 404 notFoundOrNotOwned None), sampleJobStore)
   \<and> fst (updateJob sampleEnv (sampleJobStore\<lparr>jobs := Map.empty\<rparr>)
        (sampleJobRequest\<lparr>user := Some \<lparr> user_id = Some 11, user_role = ''CLIENT'' \<rparr>,
                          body_title := JStr ''Mine now''\<rparr>))
      = Inl (ApiError 404 notFoundOrNotOwned None)"
proof -
  let ?req = "sampleJobRequest\<lparr>user := Some \<lparr> user_id = Some 11, user_role = ''CLIENT'' \<rparr>,
                                body_title := JStr ''Mine now''\<rparr>"
  have h1: "authenticated (user ?req) = Some 11" by (simp add: authenticated_def)
  have h2: "parseInt (params_jobId ?req) = Some 5" using sampleJob_jobId by simp
  have h3: "jobs sampleJobStore 5 = Some sampleJob" by (simp add: sampleJobStore_def)
  have h4: "postedById sampleJob \<noteq> 11" by (simp add: sampleJob_def)
  have h5: "jobs (sampleJobStore\<lparr>jobs := Map.empty\<rparr>) 5 = None" by simp
  from job_not_owner_not_found [OF h1 h2 h3 h4, of sampleEnv] h5
  have "updateJob sampleEnv sampleJobStore ?req
          = (Inl (ApiError 404 notFoundOrNotOwned None), sampleJobStore)
        \<and> deleteJob sampleEnv sampleJobStore ?req
          = (Inl (ApiError 404 notFoundOrNotOwned None), sampleJobStore)
        \<and> fst (updateJob sampleEnv (sampleJobStore\<lparr>jobs := Map.empty\<rparr>) ?req)
          = fst (updateJob sampleEnv sampleJobStore ?req)"
    by blast
  then show ?thesis using h4 by simp
qed

text \<open>
  A successful application is found again: the same freelancer applying to the same
  job is refused.
\<close>

lemma find_append_new:
  "find P xs = None \<Longrightarrow> P x \<Longrightarrow> find P (xs @ [x]) = Some x"
  by (induction xs) (auto split: if_splits)

lemma find_None_iff_all: "find P xs = None \<longleftrightarrow> (\<forall>x \<in> set xs. \<not> P x)"
  by (induction xs) auto

text \<open>
  A request whose five steps run with nothing in between is the handler \<^verbatim>\<open>applyJob\<close>
  run as a whole.
\<close>

lemma applyJob_uninterrupted:
  "runSchedule e [0, 0, 0, 0, 0] [Started req] s
     = ([Finished (fst (applyJob e s req))], snd (applyJob e s req))"
  by (auto simp: applyJob_def Let_def split: option.splits)

text \<open>
  Claim C6, as the code has it. For calls of \<^verbatim>\<open>applyJob\<close> that run one after the other,
  each as a whole: a call keeps the store at one application at most for every pair of
  a freelancer and a job; and after a successful call, a second call by the same
  freelancer for the same job is refused with the 400 error
  \<^verbatim>\<open>You have already applied to this job\<close> and leaves the store as it is, so that no
  second application is created.
\<close>

theorem applyJob_at_most_one_application:
  "(oneApplicationPerPair s \<longrightarrow> oneApplicationPerPair (snd (applyJob e s req)))
   \<and> (\<forall>resp s' e2 req2.
         applyJob e s req = (Inr resp, s')
         \<and> authenticated (user req2) = authenticated (user req)
         \<and> requestRole req2 = ''FREELANCER''
         \<and> asRowId (Number (params_jobId req2)) = asRowId (Number (params_jobId req))
         \<longrightarrow> applyJob e2 s' req2
               = (Inl (ApiError 400 ''You have already applied to this job'' None), s'))"
proof (intro conjI allI impI)
  assume inv: "oneApplicationPerPair s"
  show "oneApplicationPerPair (snd (applyJob e s req))"
    using inv
    by (auto simp: applyJob_def oneApplicationPerPair_def Let_def find_None_iff_all
        split: option.splits)
next
  fix resp s' e2 req2
  assume a: "applyJob e s req = (Inr resp, s')
         \<and> authenticated (user req2) = authenticated (user req)
         \<and> requestRole req2 = ''FREELANCER''
         \<and> asRowId (Number (params_jobId req2)) = asRowId (Number (params_jobId req))"
  then obtain fid jid j u where
    fid: "authenticated (user req) = Some fid"
    and jid: "asRowId (Number (params_jobId req)) = Some jid"
    and j: "jobs s jid = Some j"
    and u: "users s fid = Some u" "freelancerProfile u \<noteq> None"
    and new: "find (\<lambda>a. application.freelancerId a = fid \<and> application.jobId a = jid)
                (applications s) = None"
    by (auto simp: applyJob_def Let_def split: option.splits if_splits)
  let ?app = "\<lparr> application.id' = nextApplicationId s,
                aboutFreelancer = body_aboutFreelancer req,
                application.freelancerId = fid, application.jobId = jid \<rparr>"
  have s': "s' = s\<lparr> applications := applications s @ [?app],
                    nextApplicationId := nextApplicationId s + 1,
                    users := (users s)(fid \<mapsto> u\<lparr> appliedJobsId := appliedJobsId u @ [jid] \<rparr>) \<rparr>"
    using a u by (simp add: applyJob_def Let_def fid jid j new split: if_splits)
  have found: "find (\<lambda>a. application.freelancerId a = fid \<and> application.jobId a = jid)
                 (applications s') = Some ?app"
    by (simp add: s' find_append_new [OF new])
  have j': "jobs s' jid = Some j" by (simp add: s' j)
  have u': "users s' fid = Some (u\<lparr> appliedJobsId := appliedJobsId u @ [jid] \<rparr>)"
    by (simp add: s')
  have fid2: "authenticated (user req2) = Some fid" using a fid by simp
  have role2: "requestRole req2 = ''FREELANCER''" using a by simp
  have jid2: "asRowId (Number (params_jobId req2)) = Some jid" using a jid by simp
  show "applyJob e2 s' req2
          = (Inl (ApiError 400 ''You have already applied to this job'' None), s')"
    using u by (simp add: applyJob_def fid2 role2 jid2 j' u' found)
qed

lemma Number_5: "Number ''5'' = Fin 5"
  by code_simp

theorem applyJob_at_most_one_application_witness:
  "oneApplicationPerPair sampleJobStore
   \<and> oneApplicationPerPair
        (snd (applyJob sampleEnv sampleJobStore
                (sampleJobRequest
                   \<lparr>user := Some \<lparr> user_id = Some 20, user_role = ''FREELANCER'' \<rparr>\<rparr>)))
   \<and> length (applications
        (snd (applyJob sampleEnv sampleJobStore
                (sampleJobRequest
                   \<lparr>user := Some \<lparr> user_id = Some 20, user_role = ''FREELANCER'' \<rparr>\<rparr>)))) = 1
   \<and> applyJob sampleEnv
        (snd (applyJob sampleEnv sampleJobStore
                (sampleJobRequest
                   \<lparr>user := Some \<lparr> user_id = Some 20, user_role = ''FREELANCER'' \<rparr>\<rparr>)))
        (sampleJobRequest\<lparr>user := Some \<lparr> user_id = Some 20, user_role = ''FREELANCER'' \<rparr>\<rparr>)
      = (Inl (ApiError 400 ''You have already applied to this job'' None),
         snd (applyJob sampleEnv sampleJobStore
                (sampleJobRequest
                   \<lparr>user := Some \<lparr> user_id = Some 20, user_role = ''FREELANCER'' \<rparr>\<rparr>)))"
proof -
  let ?req = "sampleJobRequest\<lparr>user := Some \<lparr> user_id = Some 20, user_role = ''FREELANCER'' \<rparr>\<rparr>"
  let ?app = "\<lparr> application.id' = 1, aboutFreelancer = JUndefined,
                application.freelancerId = 20, application.jobId = 5 \<rparr>"
  let ?s' = "sampleJobStore
               \<lparr> applications := [?app], nextApplicationId := 2,
                 users := (users sampleJobStore)
                   (20 \<mapsto> \<lparr> user_row.id' = 20, freelancerProfile = Some sampleProfile,
                              appliedJobsId = [5] \<rparr>) \<rparr>"
  have role: "requestRole ?req = ''FREELANCER''" by (simp add: requestRole_def)
  have first: "applyJob sampleEnv sampleJobStore ?req
                 = (Inr (ApiResponse 200 ?app ''Applied to job successfully''), ?s')"
    by (simp add: applyJob_def authenticated_def requestRole_def sampleJobRequest_def Number_5
        sampleJobStore_def Let_def)
  have inv: "oneApplicationPerPair sampleJobStore"
    by (simp add: oneApplicationPerPair_def sampleJobStore_def)
  from applyJob_at_most_one_application [of sampleJobStore sampleEnv ?req]
  have keep: "oneApplicationPerPair (snd (applyJob sampleEnv sampleJobStore ?req))"
    and again: "applyJob sampleEnv ?s' ?req
                  = (Inl (ApiError 400 ''You have already applied to this job'' None), ?s')"
    using inv first role by blast+
  show ?thesis using inv keep again by (simp add: first)
qed

text \<open>
  The claim as first stated lets no second application for a pair ever exist. Two
  requests of freelancer 20 for job 5 whose steps alternate both find no earlier
  application before either has written its own: both succeed, and the store holds two
  applications for the pair.
\<close>

theorem applyJob_interleaved_twice:
  "oneApplicationPerPair sampleJobStore
   \<and> fst (runSchedule sampleEnv [0, 1, 0, 1, 0, 1, 0, 1, 0, 1]
            [Started (sampleJobRequest
                        \<lparr>user := Some \<lparr> user_id = Some 20, user_role = ''FREELANCER'' \<rparr>\<rparr>),
             Started (sampleJobRequest
                        \<lparr>user := Some \<lparr> user_id = Some 20, user_role = ''FREELANCER'' \<rparr>\<rparr>)]
            sampleJobStore)
     = [Finished (Inr (ApiResponse 200
                         \<lparr> application.id' = 1, aboutFreelancer = JUndefined,
                           application.freelancerId = 20, application.jobId = 5 \<rparr>
                         ''Applied to job successfully'')),
        Finished (Inr (ApiResponse 200
                         \<lparr> application.id' = 2, aboutFreelancer = JUndefined,
                           application.freelancerId = 20, application.jobId = 5 \<rparr>
                         ''Applied to job successfully''))]
   \<and> applications
        (snd (runSchedule sampleEnv [0, 1, 0, 1, 0, 1, 0, 1, 0, 1]
                [Started (sampleJobRequest
                            \<lparr>user := Some \<lparr> user_id = Some 20, user_role = ''FREELANCER'' \<rparr>\<rparr>),
                 Started (sampleJobRequest
                            \<lparr>user := Some \<lparr> user_id = Some 20, user_role = ''FREELANCER'' \<rparr>\<rparr>)]
                sampleJobStore))
     = [\<lparr> application.id' = 1, aboutFreelancer = JUndefined,
          application.freelancerId = 20, application.jobId = 5 \<rparr>,
        \<lparr> application.id' = 2, aboutFreelancer = JUndefined,
          application.freelancerId = 20, application.jobId = 5 \<rparr>]
   \<and> \<not> oneApplicationPerPair
        (snd (runSchedule sampleEnv [0, 1, 0, 1, 0, 1, 0, 1, 0, 1]
                [Started (sampleJobRequest
                            \<lparr>user := Some \<lparr> user_id = Some 20, user_role = ''FREELANCER'' \<rparr>\<rparr>),
                 Started (sampleJobRequest
                            \<lparr>user := Some \<lparr> user_id = Some 20, user_role = ''FREELANCER'' \<rparr>\<rparr>)]
                sampleJobStore))"
  by code_simp

end
